theory Spec2Isabelle
  imports Main "HOL-Library.AList" "HOL-Library.Sublist"
begin

section \<open>The porch package-revision engine (porch/pkg/engine/engine.go)\<close>

text \<open>
  A shallow embedding of \<^verbatim>\<open>engine.go\<close>. Go strings are \<open>string\<close>s, each \<open>char\<close> read as
  one code point below 256. A Go \<^verbatim>\<open>map[string]string\<close> is an association list with one
  entry per key; the order of the list is the order in which a \<^verbatim>\<open>range\<close> loop visits the map,
  which Go leaves open, so a statement about every list is a statement about every order.
  A \<^verbatim>\<open>nil\<close> pointer is \<open>None\<close>, a \<^verbatim>\<open>nil\<close> slice or map is \<open>[]\<close>. A function returning
  \<^verbatim>\<open>(T, error)\<close> returns \<open>error + T\<close>, \<open>Inl\<close> being the error.
\<close>

subsection \<open>Functions of the Go standard library\<close>

text \<open>\<^verbatim>\<open>path.Ext\<close>: the suffix beginning at the final dot in the final slash-separated
  element of the path, empty if there is no dot. The scan runs from the end of the path.\<close>

fun extScan :: "string \<Rightarrow> string \<Rightarrow> string" where
  "extScan [] acc = []"
| "extScan (c # cs) acc =
     (if c = CHR ''/'' then []
      else if c = CHR ''.'' then c # acc
      else extScan cs (c # acc))"

definition Ext :: "string \<Rightarrow> string" where
  "Ext p = extScan (rev p) []"

text \<open>\<^verbatim>\<open>strings.ToLower\<close> on code points below 256: the letters A to Z and the Latin-1
  capitals (0xC0 to 0xDE, without the multiplication sign 0xD7) move up by 32.\<close>

definition toLowerChar :: "char \<Rightarrow> char" where
  "toLowerChar c =
     (let n = (of_char c :: nat) in
      if (65 \<le> n \<and> n \<le> 90) \<or> (192 \<le> n \<and> n \<le> 222 \<and> n \<noteq> 215)
      then char_of (n + 32) else c)"

definition ToLower :: "string \<Rightarrow> string" where
  "ToLower s = map toLowerChar s"

text \<open>\<^verbatim>\<open>unicode.IsSpace\<close> on code points below 256, and \<^verbatim>\<open>isWhitespace\<close> (engine.go, 1237-1244).\<close>

definition IsSpace :: "char \<Rightarrow> bool" where
  "IsSpace c = ((of_char c :: nat) \<in> {9, 10, 11, 12, 13, 32, 133, 160})"

definition isWhitespace :: "string \<Rightarrow> bool" where
  "isWhitespace s = list_all IsSpace s"

text \<open>\<^verbatim>\<open>strings.Split(s, sep)\<close> for a non-empty separator: the pieces between the
  occurrences of \<open>sep\<close>, found from the left without overlap; one piece (all of \<open>s\<close>) when
  \<open>sep\<close> does not occur. \<open>acc\<close> is the piece being read.\<close>

function splitFrom :: "string \<Rightarrow> string \<Rightarrow> string \<Rightarrow> string list" where
  "splitFrom sep acc [] = [acc]"
| "splitFrom sep acc (c # cs) =
     (if sep \<noteq> [] \<and> prefix sep (c # cs)
      then acc # splitFrom sep [] (drop (length sep) (c # cs))
      else splitFrom sep (acc @ [c]) cs)"
  by pat_completeness auto
termination
  by (relation "measure (\<lambda>(sep, acc, s). length s)") (auto simp: neq_Nil_conv)

definition Split :: "string \<Rightarrow> string \<Rightarrow> string list" where
  "Split s sep = splitFrom sep [] s"

subsection \<open>API types (porch/api/porch/v1alpha1, declared outside this file)\<close>

text \<open>The fields the engine reads or writes. \<open>TaskType\<close>, \<open>PackageRevisionLifecycle\<close>,
  \<open>RepositoryType\<close>, \<open>PatchType\<close> and \<open>ConditionStatus\<close> are Go string types; an unset
  lifecycle is the empty string. Their constants are declared with the types; the engine's
  switches need no more of them than that they differ from each other and from the empty
  string.\<close>

definition TaskTypeInit :: string where "TaskTypeInit = ''init''"
definition TaskTypeClone :: string where "TaskTypeClone = ''clone''"
definition TaskTypePatch :: string where "TaskTypePatch = ''patch''"
definition TaskTypeEdit :: string where "TaskTypeEdit = ''edit''"
definition TaskTypeEval :: string where "TaskTypeEval = ''eval''"
definition TaskTypeUpdate :: string where "TaskTypeUpdate = ''update''"

definition PackageRevisionLifecycleDraft :: string where
  "PackageRevisionLifecycleDraft = ''Draft''"
definition PackageRevisionLifecycleProposed :: string where
  "PackageRevisionLifecycleProposed = ''Proposed''"
definition PackageRevisionLifecyclePublished :: string where
  "PackageRevisionLifecyclePublished = ''Published''"

definition RepositoryTypeGit :: string where "RepositoryTypeGit = ''git''"
definition RepositoryTypeOCI :: string where "RepositoryTypeOCI = ''oci''"

definition PatchTypeCreateFile :: string where "PatchTypeCreateFile = ''CreateFile''"
definition PatchTypeDeleteFile :: string where "PatchTypeDeleteFile = ''DeleteFile''"

definition LatestPackageRevisionKey :: string where
  "LatestPackageRevisionKey = ''kpt.dev/latest-revision''"
definition LatestPackageRevisionValue :: string where
  "LatestPackageRevisionValue = ''true''"

definition ConditionTrue :: string where "ConditionTrue = ''True''"
definition ConditionFalse :: string where "ConditionFalse = ''False''"
definition ConditionUnknown :: string where "ConditionUnknown = ''Unknown''"

text \<open>Constants of \<^verbatim>\<open>internal/builtins\<close> and \<^verbatim>\<open>pkg/api/kptfile/v1\<close>.\<close>

definition PkgContextFile :: string where "PkgContextFile = ''package-context.yaml''"
definition PkgContextName :: string where "PkgContextName = ''kptfile.kpt.dev''"
definition ConfigKeyPackagePath :: string where "ConfigKeyPackagePath = ''package-path''"
definition KptFileName :: string where "KptFileName = ''Kptfile''"

record PackageRevisionRef =
  RefName :: string

record UpstreamPackage =
  UpstreamType :: string
  UpstreamRef :: "PackageRevisionRef option"

record PackageInitTaskSpec =
  Subpackage :: string
  Description :: string

record PackageCloneTaskSpec =
  CloneUpstream :: UpstreamPackage
  Strategy :: string

record PackageUpdateTaskSpec =
  UpdateUpstream :: UpstreamPackage

record PatchSpec =
  File :: string
  Contents :: string
  PatchType :: string

record PackagePatchTaskSpec =
  Patches :: "PatchSpec list"

record PackageEditTaskSpec =
  Source :: "PackageRevisionRef option"

record FunctionEvalTaskSpec =
  Image :: string
  ConfigMap :: "(string \<times> string) list"

record Task =
  Type :: string
  Init :: "PackageInitTaskSpec option"
  Clone :: "PackageCloneTaskSpec option"
  Update :: "PackageUpdateTaskSpec option"
  Patch :: "PackagePatchTaskSpec option"
  Edit :: "PackageEditTaskSpec option"
  Eval :: "FunctionEvalTaskSpec option"

text \<open>The zero value \<^verbatim>\<open>api.Task{}\<close>.\<close>

definition emptyTask :: Task where
  "emptyTask = \<lparr>Type = [], Init = None, Clone = None, Update = None, Patch = None,
     Edit = None, Eval = None\<rparr>"

record Condition =
  CondType :: string
  CondStatus :: string
  CondReason :: string
  CondMessage :: string

record PackageRevisionSpec =
  PackageName :: string
  Lifecycle :: string
  Tasks :: "Task list"
  ReadinessGates :: "string list"

record ApiPackageRevision =
  Name :: string
  Namespace :: string
  Labels :: "(string \<times> string) list"
  Annotations :: "(string \<times> string) list"
  Spec :: PackageRevisionSpec
  StatusConditions :: "Condition list"

text \<open>\<^verbatim>\<open>api.PackageRevisionResources\<close>: \<open>SpecResources\<close> is \<^verbatim>\<open>Spec.Resources\<close>.
  \<^verbatim>\<open>repository.PackageResources\<close> has the one field \<^verbatim>\<open>Contents\<close> and is the map itself.\<close>

record PackageRevisionResources =
  SpecResources :: "(string \<times> string) list"

type_synonym PackageResources = "(string \<times> string) list"

text \<open>\<^verbatim>\<open>configapi.Repository\<close>, \<^verbatim>\<open>meta.PackageRevisionMeta\<close>, \<^verbatim>\<open>builtins.PackageConfig\<close>,
  the Kptfile, and an \<^verbatim>\<open>unstructured.Unstructured\<close> object through the accessors the
  engine calls (\<^verbatim>\<open>GroupVersionKind().GroupKind()\<close>, \<^verbatim>\<open>GetName()\<close>).\<close>

record Repository =
  RepoName :: string
  RepoNamespace :: string
  Deployment :: bool

record PackageRevisionMeta =
  MetaName :: string
  MetaNamespace :: string
  MetaLabels :: "(string \<times> string) list"
  MetaAnnotations :: "(string \<times> string) list"

definition emptyMeta :: PackageRevisionMeta where
  "emptyMeta = \<lparr>MetaName = [], MetaNamespace = [], MetaLabels = [], MetaAnnotations = []\<rparr>"

record PackageConfig =
  PackagePath :: string

record KptCondition =
  KfType :: string
  KfStatus :: string
  KfReason :: string
  KfMessage :: string

record PackageInfo =
  InfoReadinessGates :: "string list"
  InfoOther :: string

record KptStatus =
  Conditions :: "KptCondition list"

record KptFile =
  Info :: "PackageInfo option"
  Status :: "KptStatus option"
  KptfileOther :: string

record Unstructured =
  Group :: string
  Kind :: string
  GetName :: string
  Object :: string

subsection \<open>Errors\<close>

text \<open>Every error the engine makes is \<^verbatim>\<open>fmt.Errorf(format, args...)\<close>: the format and its
  arguments, an argument being a string or (for \<^verbatim>\<open>%w\<close>) the wrapped error. \<open>External\<close> is an
  error returned by a collaborator, \<open>Panic\<close> a Go panic.\<close>

datatype error = External string | Errorf string "arg list" | Panic error
and arg = S string | E error

subsection \<open>Mutations\<close>

text \<open>The structs implementing the \<^verbatim>\<open>mutation\<close> interface, with the fields the engine sets
  (the engine's own collaborators left out): \<open>initPackageMutation name task\<close>,
  \<open>clonePackageMutation task namespace name isDeployment packageConfig\<close>,
  \<open>updatePackageMutation cloneTask updateTask namespace pkgName\<close>,
  \<open>editPackageMutation task namespace\<close>, \<open>evalFunctionMutation task\<close>,
  \<open>mutationReplaceResources newResources oldResources\<close>. \<open>applyPatchMutation\<close> is what
  \<^verbatim>\<open>buildPatchMutation\<close> returns.\<close>

datatype mutation =
    initPackageMutation string Task
  | clonePackageMutation Task string string bool PackageConfig
  | updatePackageMutation "Task option" Task string string
  | editPackageMutation Task string
  | evalFunctionMutation Task
  | renderPackageMutation
  | applyPatchMutation Task
  | mutationReplaceResources PackageRevisionResources PackageRevisionResources

text \<open>\<^verbatim>\<open>conditionalAddRender\<close> (676-691).\<close>

definition conditionalAddRender :: "mutation list \<Rightarrow> mutation list" where
  "conditionalAddRender mutations =
     (if length mutations = 0 then mutations
      else (case last mutations of
              renderPackageMutation \<Rightarrow> mutations
            | _ \<Rightarrow> mutations @ [renderPackageMutation]))"

text \<open>\<^verbatim>\<open>findCloneTask\<close> (979-988).\<close>

definition findCloneTask :: "ApiPackageRevision \<Rightarrow> Task option" where
  "findCloneTask pr =
     (if length (Tasks (Spec pr)) = 0 then None
      else (let firstTask = Tasks (Spec pr) ! 0 in
            if Type firstTask = TaskTypeClone then Some firstTask else None))"

text \<open>\<^verbatim>\<open>isRecloneAndReplay\<close> (1144-1159); \<^verbatim>\<open>reflect.DeepEqual\<close> on two tasks is equality
  of the records, field by field and through the pointers.\<close>

definition isRecloneAndReplay :: "ApiPackageRevision \<Rightarrow> ApiPackageRevision \<Rightarrow> bool" where
  "isRecloneAndReplay oldObj newObj =
     (let oldTasks = Tasks (Spec oldObj); newTasks = Tasks (Spec newObj) in
      if length oldTasks = 0 \<or> length newTasks = 0 then False
      else if Type (oldTasks ! 0) \<noteq> TaskTypeClone \<or> Type (newTasks ! 0) \<noteq> TaskTypeClone
      then False
      else if oldTasks ! 0 = newTasks ! 0 then False
      else True)"

subsection \<open>Collaborators\<close>

text \<open>A \<^verbatim>\<open>repository.PackageRevision\<close> is read through its methods; the handle holds what
  each returns. \<^verbatim>\<open>GetLock\<close> returns the upstream and its lock, kept as text.\<close>

record RepoPackageRevision =
  KubeObjectName :: string
  KubeObjectNamespace :: string
  RepoGetPackageRevision :: "error + ApiPackageRevision"
  RepoGetResources :: "error + PackageRevisionResources"
  GetKptfile :: "error + KptFile"
  GetLock :: "error + (string \<times> string)"

text \<open>The engine's \<^verbatim>\<open>PackageRevision\<close> (84-87).\<close>

record PackageRevision =
  repoPackageRevision :: RepoPackageRevision
  packageRevisionMeta :: PackageRevisionMeta

text \<open>A YAML node (\<^verbatim>\<open>yaml.RNode\<close>) through the accessors \<^verbatim>\<open>healConfig\<close> calls.\<close>

record RNode =
  NodeNamespace :: string
  NodeName :: string
  NodeApiVersion :: string
  NodeKind :: string
  NodeText :: string

text \<open>Functions defined outside this file that compute a result from their arguments:
  the YAML library, the patch generator, the kio reader and writer, the package updater.
  They are parameters of the model.\<close>

record Library =
  yamlUnmarshal :: "string \<Rightarrow> error + Unstructured"
  FromUnstructured :: "Unstructured \<Rightarrow> error + (string \<times> string) list"
  yamlEncode :: "KptFile \<Rightarrow> error + string"
  buildPatchMutation :: "Task \<Rightarrow> error + mutation"
  GeneratePatch :: "string \<Rightarrow> string \<Rightarrow> string \<Rightarrow> error + PatchSpec"
  packageReaderRead :: "PackageResources \<Rightarrow> error + (RNode list \<times> PackageResources)"
  packageWriterWrite :: "RNode list \<Rightarrow> error + PackageResources"
  CopyComments :: "RNode \<Rightarrow> RNode \<Rightarrow> RNode"
  packageUpdaterUpdate ::
    "PackageResources \<Rightarrow> PackageResources \<Rightarrow> PackageResources \<Rightarrow> error + PackageResources"
  UpdateKptfileUpstream ::
    "PackageResources \<Rightarrow> string \<Rightarrow> string \<Rightarrow> error + PackageResources"
  ensureMergeKey :: "PackageResources \<Rightarrow> PackageResources \<times> error option"

text \<open>The calls the engine makes on its stateful collaborators: the repository cache, a
  repository, a draft, the metadata store, and the mutations implemented in other files.
  Repositories and drafts are handles, here numbers.\<close>

datatype call =
    OpenRepository Repository
  | RepoCreatePackageRevision nat ApiPackageRevision
  | RepoUpdatePackageRevision nat RepoPackageRevision
  | RepoDeletePackageRevision nat RepoPackageRevision
  | MutationApply mutation PackageResources
  | DraftUpdateResources nat PackageRevisionResources "Task option"
  | DraftUpdateLifecycle nat string
  | DraftClose nat
  | MetadataStoreCreate PackageRevisionMeta Repository
  | MetadataStoreUpdate PackageRevisionMeta
  | MetadataStoreDelete string string

text \<open>What a collaborator answers may depend on everything that happened before: each
  answer is a function of the calls made so far and of the arguments. The engine ignores
  what \<^verbatim>\<open>metadataStore.Update\<close> returns, so that call has no answer here. The two
  methods of \<^verbatim>\<open>PackageFetcher\<close> read an upstream revision; they are asked like the others
  but change nothing and are not listed among the calls.\<close>

record cadEngine =
  cacheOpenRepository :: "call list \<Rightarrow> Repository \<Rightarrow> error + nat"
  repoCreatePackageRevision :: "call list \<Rightarrow> nat \<Rightarrow> ApiPackageRevision \<Rightarrow> error + nat"
  repoUpdatePackageRevision :: "call list \<Rightarrow> nat \<Rightarrow> RepoPackageRevision \<Rightarrow> error + nat"
  repoDeletePackageRevision :: "call list \<Rightarrow> nat \<Rightarrow> RepoPackageRevision \<Rightarrow> error option"
  externalApply ::
    "call list \<Rightarrow> mutation \<Rightarrow> PackageResources \<Rightarrow> error + (PackageResources \<times> Task option)"
  draftUpdateResources ::
    "call list \<Rightarrow> nat \<Rightarrow> PackageRevisionResources \<Rightarrow> Task option \<Rightarrow> error option"
  draftUpdateLifecycle :: "call list \<Rightarrow> nat \<Rightarrow> string \<Rightarrow> error option"
  draftClose :: "call list \<Rightarrow> nat \<Rightarrow> error + RepoPackageRevision"
  metadataStoreCreate ::
    "call list \<Rightarrow> PackageRevisionMeta \<Rightarrow> Repository \<Rightarrow> error + PackageRevisionMeta"
  metadataStoreDelete :: "call list \<Rightarrow> string \<Rightarrow> string \<Rightarrow> error option"
  FetchResources ::
    "call list \<Rightarrow> PackageRevisionRef option \<Rightarrow> string \<Rightarrow> error + PackageRevisionResources"
  FetchRevision ::
    "call list \<Rightarrow> PackageRevisionRef option \<Rightarrow> string \<Rightarrow> error + RepoPackageRevision"

subsection \<open>The context extractor\<close>

text \<open>\<^verbatim>\<open>ExtractContextConfigMap\<close> (1186-1235). \<open>parseDocuments\<close> is the inner loop over the
  documents of one file, \<open>scanResources\<close> the outer loop over the files; both carry
  \<^verbatim>\<open>matches\<close>.\<close>

fun parseDocuments ::
  "Library \<Rightarrow> string \<Rightarrow> string list \<Rightarrow> Unstructured list \<Rightarrow> error + Unstructured list" where
  "parseDocuments L itemPath [] matches = Inr matches"
| "parseDocuments L itemPath (s # ss) matches =
     (if isWhitespace s then parseDocuments L itemPath ss matches
      else (case yamlUnmarshal L s of
              Inl err \<Rightarrow> Inl (Errorf ''error parsing yaml from %s: %w'' [S itemPath, E err])
            | Inr o1 \<Rightarrow>
                if Group o1 = [] \<and> Kind o1 = ''ConfigMap'' \<and> GetName o1 = PkgContextName
                then parseDocuments L itemPath ss (matches @ [o1])
                else parseDocuments L itemPath ss matches))"

fun scanResources ::
  "Library \<Rightarrow> (string \<times> string) list \<Rightarrow> Unstructured list \<Rightarrow> error + Unstructured list" where
  "scanResources L [] matches = Inr matches"
| "scanResources L ((itemPath, itemContents) # rest) matches =
     (let ext = ToLower (Ext itemPath) in
      if ext = ''.yaml'' \<or> ext = ''.yml''
      then (case parseDocuments L itemPath (Split itemContents ''\<newline>---\<newline>'') matches of
              Inl err \<Rightarrow> Inl err
            | Inr matches' \<Rightarrow> scanResources L rest matches')
      else scanResources L rest matches)"

definition ExtractContextConfigMap ::
  "Library \<Rightarrow> (string \<times> string) list \<Rightarrow> error + Unstructured option" where
  "ExtractContextConfigMap L resources =
     (case scanResources L resources [] of
        Inl err \<Rightarrow> Inl err
      | Inr matches \<Rightarrow>
          if length matches = 0 then Inr None
          else if length matches > 1
          then Inl (Errorf ''found multiple configmaps matching name %q'' [S PkgContextFile])
          else Inr (Some (matches ! 0)))"

text \<open>The claim's words: the YAML files, their non-blank documents, and the context
  ConfigMaps among the parsed objects.\<close>

definition isYamlFile :: "string \<Rightarrow> bool" where
  "isYamlFile itemPath = (ToLower (Ext itemPath) \<in> {''.yaml'', ''.yml''})"

definition documentsOf :: "(string \<times> string) list \<Rightarrow> string list" where
  "documentsOf resources =
     concat (map (\<lambda>(itemPath, itemContents).
                    filter (\<lambda>s. \<not> isWhitespace s) (Split itemContents ''\<newline>---\<newline>''))
                 (filter (\<lambda>(itemPath, itemContents). isYamlFile itemPath) resources))"

definition isContextConfigMap :: "Unstructured \<Rightarrow> bool" where
  "isContextConfigMap o1 = (Group o1 = [] \<and> Kind o1 = ''ConfigMap'' \<and> GetName o1 = PkgContextName)"

definition parses :: "Library \<Rightarrow> string \<Rightarrow> bool" where
  "parses L s = (case yamlUnmarshal L s of Inl err \<Rightarrow> False | Inr o1 \<Rightarrow> True)"

definition parsed :: "Library \<Rightarrow> string \<Rightarrow> Unstructured list" where
  "parsed L s = (case yamlUnmarshal L s of Inl err \<Rightarrow> [] | Inr o1 \<Rightarrow> [o1])"

definition contextConfigMaps :: "Library \<Rightarrow> (string \<times> string) list \<Rightarrow> Unstructured list" where
  "contextConfigMaps L resources =
     filter isContextConfigMap (concat (map (parsed L) (documentsOf resources)))"

subsection \<open>The package configuration\<close>

text \<open>\<^verbatim>\<open>PackageRevision.GetPackageRevision\<close> (89-107) and \<^verbatim>\<open>GetResources\<close> (113-115). The
  labels of the result are the labels of the metadata record, with the latest-revision
  label kept when the repository set it.\<close>

definition GetPackageRevision :: "PackageRevision \<Rightarrow> error + ApiPackageRevision" where
  "GetPackageRevision p =
     (case RepoGetPackageRevision (repoPackageRevision p) of
        Inl err \<Rightarrow> Inl err
      | Inr repoPkgRev \<Rightarrow>
          (let isLatest =
                 (map_of (Labels repoPkgRev) LatestPackageRevisionKey
                    = Some LatestPackageRevisionValue);
               labels = MetaLabels (packageRevisionMeta p);
               labels' = (if isLatest
                          then AList.update LatestPackageRevisionKey LatestPackageRevisionValue
                                 labels
                          else labels)
           in Inr (repoPkgRev\<lparr>Labels := labels',
                     Annotations := MetaAnnotations (packageRevisionMeta p)\<rparr>)))"

definition GetResources :: "PackageRevision \<Rightarrow> error + PackageRevisionResources" where
  "GetResources p = RepoGetResources (repoPackageRevision p)"

text \<open>\<^verbatim>\<open>buildPackageConfig\<close> (202-244); \<open>packagePathOf\<close> is its end (237-243). A key
  missing from \<^verbatim>\<open>Data\<close> reads as the empty string.\<close>

definition packagePathOf :: "string \<Rightarrow> ApiPackageRevision \<Rightarrow> PackageConfig" where
  "packagePathOf parentPath obj =
     (if parentPath = [] then \<lparr>PackagePath = PackageName (Spec obj)\<rparr>
      else \<lparr>PackagePath = parentPath @ ''/'' @ PackageName (Spec obj)\<rparr>)"

definition buildPackageConfig ::
  "Library \<Rightarrow> ApiPackageRevision \<Rightarrow> PackageRevision option \<Rightarrow> error + PackageConfig" where
  "buildPackageConfig L obj parent =
     (case parent of
        None \<Rightarrow> Inr (packagePathOf [] obj)
      | Some p \<Rightarrow>
          (case GetPackageRevision p of
             Inl err \<Rightarrow> Inl err
           | Inr parentObj \<Rightarrow>
               (let parentPath = PackageName (Spec parentObj) in
                case GetResources p of
                  Inl err \<Rightarrow>
                    Inl (Errorf ''error getting resources from parent package %q: %w''
                           [S (Name parentObj), E err])
                | Inr resources \<Rightarrow>
                    (case ExtractContextConfigMap L (SpecResources resources) of
                       Inl err \<Rightarrow>
                         Inl (Errorf ''error getting configuration from parent package %q: %w''
                                [S (Name parentObj), E err])
                     | Inr None \<Rightarrow> Inr (packagePathOf parentPath obj)
                     | Inr (Some parentConfig) \<Rightarrow>
                         (case FromUnstructured L parentConfig of
                            Inl err \<Rightarrow>
                              Inl (Errorf
                                     ''error parsing ConfigMap from parent configuration: %w''
                                     [E err])
                          | Inr parentData \<Rightarrow>
                              (let s = (case map_of parentData ConfigKeyPackagePath of
                                          None \<Rightarrow> [] | Some v \<Rightarrow> v)
                               in if s \<noteq> []
                                  then Inr (packagePathOf (s @ ''/'' @ parentPath) obj)
                                  else Inr (packagePathOf parentPath obj)))))))"

subsection \<open>Tasks to mutations\<close>

text \<open>\<^verbatim>\<open>mapTaskToMutation\<close> (348-425).\<close>

definition mapTaskToMutation ::
  "Library \<Rightarrow> ApiPackageRevision \<Rightarrow> Task \<Rightarrow> bool \<Rightarrow> PackageConfig \<Rightarrow> error + mutation" where
  "mapTaskToMutation L obj task isDeployment packageConfig =
     (if Type task = TaskTypeInit then
        (if Init task = None
         then Inl (Errorf ''init not set for task of type %q'' [S (Type task)])
         else Inr (initPackageMutation (PackageName (Spec obj)) task))
      else if Type task = TaskTypeClone then
        (if Clone task = None
         then Inl (Errorf ''clone not set for task of type %q'' [S (Type task)])
         else Inr (clonePackageMutation task (Namespace obj) (PackageName (Spec obj))
                     isDeployment packageConfig))
      else if Type task = TaskTypeUpdate then
        (if Update task = None
         then Inl (Errorf ''update not set for task of type %q'' [S (Type task)])
         else (case findCloneTask obj of
                 None \<Rightarrow>
                   Inl (Errorf
                     ''upstream source not found for package rev %q; only cloned packages can be updated''
                     [S (PackageName (Spec obj))])
               | Some cloneTask \<Rightarrow>
                   Inr (updatePackageMutation (Some cloneTask) task (Namespace obj)
                          (PackageName (Spec obj)))))
      else if Type task = TaskTypePatch then buildPatchMutation L task
      else if Type task = TaskTypeEdit then
        (if Edit task = None
         then Inl (Errorf ''edit not set for task of type %q'' [S (Type task)])
         else Inr (editPackageMutation task (Namespace obj)))
      else if Type task = TaskTypeEval then
        (case Eval task of
           None \<Rightarrow> Inl (Errorf ''eval not set for task of type %q'' [S (Type task)])
         | Some ev \<Rightarrow>
             if Image ev = ''render'' then Inr renderPackageMutation
             else Inr (evalFunctionMutation task))
      else Inl (Errorf ''task of type %q not supported'' [S (Type task)]))"

subsection \<open>The mutations of this file\<close>

text \<open>\<^verbatim>\<open>healConfig\<close> (1088-1139): the old package is read, the new one is read (the reader
  puts the files that are not resources into \<^verbatim>\<open>extra\<close>), the filter copies the comments of
  every old node with the same namespace, name, apiVersion and kind, the writer gives the
  healed contents, and the extra files are put back.\<close>

definition healNode :: "Library \<Rightarrow> RNode list \<Rightarrow> RNode \<Rightarrow> RNode" where
  "healNode L oldResources n =
     fold (\<lambda>original n.
             if NodeNamespace n = NodeNamespace original \<and> NodeName n = NodeName original \<and>
                NodeApiVersion n = NodeApiVersion original \<and> NodeKind n = NodeKind original
             then CopyComments L original n else n)
          oldResources n"

definition healConfig ::
  "Library \<Rightarrow> (string \<times> string) list \<Rightarrow> (string \<times> string) list
     \<Rightarrow> error + (string \<times> string) list" where
  "healConfig L old new =
     (case packageReaderRead L old of
        Inl err \<Rightarrow> Inl (Errorf ''failed to read old packge resources: %w'' [E err])
      | Inr (oldResources, oldExtra) \<Rightarrow>
          (case packageReaderRead L new of
             Inl err \<Rightarrow> Inl err
           | Inr (r, extra) \<Rightarrow>
               (case packageWriterWrite L (map (healNode L oldResources) r) of
                  Inl err \<Rightarrow> Inl err
                | Inr healed \<Rightarrow> Inr (fold (\<lambda>(k, v) healed. AList.update k v healed) extra healed))))"

text \<open>\<^verbatim>\<open>mutationReplaceResources.Apply\<close> (1039-1086). \<open>newFilePatches\<close> is the loop over the
  new files (1051-1069), \<open>deletedFilePatches\<close> the loop over the old files (1070-1079);
  both carry \<^verbatim>\<open>patch.Patches\<close>.\<close>

fun newFilePatches ::
  "Library \<Rightarrow> (string \<times> string) list \<Rightarrow> (string \<times> string) list \<Rightarrow> PatchSpec list
     \<Rightarrow> error + PatchSpec list" where
  "newFilePatches L old [] patches = Inr patches"
| "newFilePatches L old ((k, newV) # rest) patches =
     (case map_of old k of
        None \<Rightarrow>
          newFilePatches L old rest
            (patches @ [\<lparr>File = k, Contents = newV, PatchType = PatchTypeCreateFile\<rparr>])
      | Some oldV \<Rightarrow>
          if newV \<noteq> oldV
          then (case GeneratePatch L k oldV newV of
                  Inl err \<Rightarrow> Inl (Errorf ''error generating patch: %w'' [E err])
                | Inr patchSpec \<Rightarrow> newFilePatches L old rest (patches @ [patchSpec]))
          else newFilePatches L old rest patches)"

fun deletedFilePatches ::
  "(string \<times> string) list \<Rightarrow> (string \<times> string) list \<Rightarrow> PatchSpec list \<Rightarrow> PatchSpec list" where
  "deletedFilePatches new [] patches = patches"
| "deletedFilePatches new ((k, oldV) # rest) patches =
     (if map_of new k = None
      then deletedFilePatches new rest
             (patches @ [\<lparr>File = k, Contents = [], PatchType = PatchTypeDeleteFile\<rparr>])
      else deletedFilePatches new rest patches)"

definition mutationReplaceResources_Apply ::
  "Library \<Rightarrow> PackageRevisionResources \<Rightarrow> PackageRevisionResources \<Rightarrow> PackageResources
     \<Rightarrow> error + (PackageResources \<times> Task option)" where
  "mutationReplaceResources_Apply L newResources oldResources resources =
     (let old = resources in
      case healConfig L old (SpecResources newResources) of
        Inl err \<Rightarrow> Inl (Errorf ''failed to heal resources: %w'' [E err])
      | Inr new \<Rightarrow>
          (case newFilePatches L old new [] of
             Inl err \<Rightarrow> Inl err
           | Inr patches \<Rightarrow>
               Inr (new, Some (emptyTask\<lparr>Type := TaskTypePatch,
                      Patch := Some \<lparr>Patches = deletedFilePatches new old patches\<rparr>\<rparr>))))"

text \<open>\<^verbatim>\<open>updatePackageMutation.currUpstream\<close> (968-977) and \<^verbatim>\<open>Apply\<close> (898-963). Reading
  a field through a \<^verbatim>\<open>nil\<close> pointer panics: \<open>failWithRef\<close> is an error whose message ends
  with the name of an upstream reference, or that panic when the reference is \<^verbatim>\<open>nil\<close>.
  A failure of \<^verbatim>\<open>ensureMergeKey\<close> is logged, and what it returned is the result.\<close>

definition nilPointerDereference :: error where
  "nilPointerDereference = Panic (External ''invalid memory address or nil pointer dereference'')"

definition currUpstream :: "Task option \<Rightarrow> string \<Rightarrow> error + PackageRevisionRef option" where
  "currUpstream cloneTask pkgName =
     (case cloneTask of
        None \<Rightarrow> Inl (Errorf ''package %s does not have original upstream info'' [S pkgName])
      | Some ct \<Rightarrow>
          (case Clone ct of
             None \<Rightarrow> Inl (Errorf ''package %s does not have original upstream info'' [S pkgName])
           | Some c \<Rightarrow>
               (let upstream = CloneUpstream c in
                if UpstreamType upstream = RepositoryTypeGit \<or>
                   UpstreamType upstream = RepositoryTypeOCI
                then Inl (Errorf
                       ''upstream package must be porch native package. Found it to be %s''
                       [S (UpstreamType upstream)])
                else Inr (UpstreamRef upstream))))"

definition failWithRef :: "string \<Rightarrow> arg list \<Rightarrow> PackageRevisionRef option \<Rightarrow> error" where
  "failWithRef format args ref =
     (case ref of None \<Rightarrow> nilPointerDereference
      | Some r \<Rightarrow> Errorf format (args @ [S (RefName r)]))"

definition updatePackageMutation_Apply ::
  "Library \<Rightarrow> cadEngine \<Rightarrow> call list \<Rightarrow> Task option \<Rightarrow> Task \<Rightarrow> string \<Rightarrow> string
     \<Rightarrow> PackageResources \<Rightarrow> error + (PackageResources \<times> Task option)" where
  "updatePackageMutation_Apply L cad tr cloneTask updateTask namespace pkgName resources =
     (case currUpstream cloneTask pkgName of
        Inl err \<Rightarrow> Inl err
      | Inr currUpstreamPkgRef \<Rightarrow>
     (case Update updateTask of
        None \<Rightarrow> Inl nilPointerDereference
      | Some upd \<Rightarrow>
     (let targetUpstream = UpdateUpstream upd in
      if UpstreamType targetUpstream = RepositoryTypeGit \<or>
         UpstreamType targetUpstream = RepositoryTypeOCI
      then Inl (Errorf ''update is not supported for non-porch upstream packages'' [])
      else
     (case FetchResources cad tr currUpstreamPkgRef namespace of
        Inl err \<Rightarrow>
          Inl (failWithRef ''error fetching the resources for package %s with ref %+v''
                 [S pkgName] currUpstreamPkgRef)
      | Inr originalResources \<Rightarrow>
     (case FetchRevision cad tr (UpstreamRef targetUpstream) namespace of
        Inl err \<Rightarrow>
          Inl (failWithRef ''error fetching revision for target upstream %s'' []
                 (UpstreamRef targetUpstream))
      | Inr upstreamRevision \<Rightarrow>
     (case RepoGetResources upstreamRevision of
        Inl err \<Rightarrow>
          Inl (failWithRef ''error fetching resources for target upstream %s'' []
                 (UpstreamRef targetUpstream))
      | Inr upstreamResources \<Rightarrow>
     (case packageUpdaterUpdate L resources (SpecResources originalResources)
             (SpecResources upstreamResources) of
        Inl err \<Rightarrow>
          Inl (failWithRef ''error updating the package to revision %s'' []
                 (UpstreamRef targetUpstream))
      | Inr updatedResources \<Rightarrow>
     (case GetLock upstreamRevision of
        Inl err \<Rightarrow>
          Inl (failWithRef ''error fetching the resources for package revisions %s'' []
                 (UpstreamRef targetUpstream))
      | Inr (newUpstream, newUpstreamLock) \<Rightarrow>
     (case UpdateKptfileUpstream L updatedResources newUpstream newUpstreamLock of
        Inl err \<Rightarrow>
          Inl (Errorf ''failed to apply upstream lock to package %q: %w'' [S pkgName, E err])
      | Inr lockedResources \<Rightarrow>
          Inr (fst (ensureMergeKey L lockedResources), Some updateTask))))))))))"

text \<open>\<^verbatim>\<open>Apply\<close> of any mutation: the two above are in this file, the others belong to the
  collaborators.\<close>

definition Apply ::
  "Library \<Rightarrow> cadEngine \<Rightarrow> call list \<Rightarrow> mutation \<Rightarrow> PackageResources
     \<Rightarrow> error + (PackageResources \<times> Task option)" where
  "Apply L cad tr m resources =
     (case m of
        mutationReplaceResources newResources oldResources \<Rightarrow>
          mutationReplaceResources_Apply L newResources oldResources resources
      | updatePackageMutation cloneTask updateTask namespace pkgName \<Rightarrow>
          updatePackageMutation_Apply L cad tr cloneTask updateTask namespace pkgName resources
      | _ \<Rightarrow> externalApply cad tr m resources)"

subsection \<open>The mutation pipeline\<close>

text \<open>\<^verbatim>\<open>applyResourceMutations\<close> (846-863). The engine functions take the calls made so
  far and return them extended; a collaborator is asked with the calls made before its own.\<close>

fun applyResourceMutations ::
  "Library \<Rightarrow> cadEngine \<Rightarrow> call list \<Rightarrow> nat \<Rightarrow> PackageResources \<Rightarrow> mutation list
     \<Rightarrow> error option \<times> call list" where
  "applyResourceMutations L cad tr draft baseResources [] = (None, tr)"
| "applyResourceMutations L cad tr draft baseResources (m # mutations) =
     (let tr1 = tr @ [MutationApply m baseResources] in
      case Apply L cad tr m baseResources of
        Inl err \<Rightarrow> (Some err, tr1)
      | Inr (applied, task) \<Rightarrow>
          (let res = \<lparr>SpecResources = applied\<rparr>;
               tr2 = tr1 @ [DraftUpdateResources draft res task] in
           case draftUpdateResources cad tr1 draft res task of
             Some err \<Rightarrow> (Some err, tr2)
           | None \<Rightarrow> applyResourceMutations L cad tr2 draft applied mutations))"

text \<open>\<^verbatim>\<open>applyTasks\<close> (307-342): \<open>initialMutations\<close> is the Init inserted at 310-322,
  \<open>mapTasks\<close> the loop at 324-331.\<close>

definition initialMutations :: "ApiPackageRevision \<Rightarrow> mutation list" where
  "initialMutations obj =
     (let tasks = Tasks (Spec obj) in
      if length tasks = 0 \<or>
         (Type (tasks ! 0) \<noteq> TaskTypeInit \<and> Type (tasks ! 0) \<noteq> TaskTypeClone)
      then [initPackageMutation (PackageName (Spec obj))
              (emptyTask\<lparr>Init := Some \<lparr>Subpackage = [],
                 Description = PackageName (Spec obj) @ '' description''\<rparr>\<rparr>)]
      else [])"

fun mapTasks ::
  "Library \<Rightarrow> ApiPackageRevision \<Rightarrow> bool \<Rightarrow> PackageConfig \<Rightarrow> Task list \<Rightarrow> mutation list
     \<Rightarrow> error + mutation list" where
  "mapTasks L obj isDeployment packageConfig [] mutations = Inr mutations"
| "mapTasks L obj isDeployment packageConfig (task # tasks) mutations =
     (case mapTaskToMutation L obj task isDeployment packageConfig of
        Inl err \<Rightarrow> Inl err
      | Inr m \<Rightarrow> mapTasks L obj isDeployment packageConfig tasks (mutations @ [m]))"

definition applyTasks ::
  "Library \<Rightarrow> cadEngine \<Rightarrow> call list \<Rightarrow> nat \<Rightarrow> Repository \<Rightarrow> ApiPackageRevision
     \<Rightarrow> PackageConfig \<Rightarrow> error option \<times> call list" where
  "applyTasks L cad tr draft repositoryObj obj packageConfig =
     (case mapTasks L obj (Deployment repositoryObj) packageConfig (Tasks (Spec obj))
             (initialMutations obj) of
        Inl err \<Rightarrow> (Some err, tr)
      | Inr mutations \<Rightarrow>
          applyResourceMutations L cad tr draft [] (conditionalAddRender mutations))"

subsection \<open>Creating a package revision\<close>

text \<open>\<^verbatim>\<open>CreatePackageRevision\<close> (246-305). \<open>checkCreateLifecycle\<close> is the switch at 255-267;
  it returns the object with the lifecycle it will be created with.\<close>

definition checkCreateLifecycle :: "ApiPackageRevision \<Rightarrow> error + ApiPackageRevision" where
  "checkCreateLifecycle obj =
     (let lifecycle = Lifecycle (Spec obj) in
      if lifecycle = [] then
        Inr (obj\<lparr>Spec := (Spec obj)\<lparr>Lifecycle := PackageRevisionLifecycleDraft\<rparr>\<rparr>)
      else if lifecycle = PackageRevisionLifecycleDraft \<or>
              lifecycle = PackageRevisionLifecycleProposed then Inr obj
      else if lifecycle = PackageRevisionLifecyclePublished then
        Inl (Errorf (''cannot create a package revision with lifecycle value ''
                       @ [CHR 0x27] @ ''Final'' @ [CHR 0x27]) [])
      else Inl (Errorf ''unsupported lifecycle value: %s'' [S lifecycle]))"

text \<open>\<open>metaOf\<close> is the \<^verbatim>\<open>meta.PackageRevisionMeta\<close> literal built at 291-296, 446-451
  and 571-576: name and namespace of the repository revision, labels and annotations of
  the API object.\<close>

definition metaOf ::
  "RepoPackageRevision \<Rightarrow> ApiPackageRevision \<Rightarrow> PackageRevisionMeta" where
  "metaOf repoPkgRev obj =
     \<lparr>MetaName = KubeObjectName repoPkgRev, MetaNamespace = KubeObjectNamespace repoPkgRev,
      MetaLabels = Labels obj, MetaAnnotations = Annotations obj\<rparr>"

definition CreatePackageRevision ::
  "Library \<Rightarrow> cadEngine \<Rightarrow> call list \<Rightarrow> Repository \<Rightarrow> ApiPackageRevision
     \<Rightarrow> PackageRevision option \<Rightarrow> (error + PackageRevision) \<times> call list" where
  "CreatePackageRevision L cad tr repositoryObj obj0 parent =
     (case buildPackageConfig L obj0 parent of
        Inl err \<Rightarrow> (Inl err, tr)
      | Inr packageConfig \<Rightarrow>
     (case checkCreateLifecycle obj0 of
        Inl err \<Rightarrow> (Inl err, tr)
      | Inr obj \<Rightarrow>
     (let tr1 = tr @ [OpenRepository repositoryObj] in
      case cacheOpenRepository cad tr repositoryObj of
        Inl err \<Rightarrow> (Inl err, tr1)
      | Inr repo \<Rightarrow>
     (let tr2 = tr1 @ [RepoCreatePackageRevision repo obj] in
      case repoCreatePackageRevision cad tr1 repo obj of
        Inl err \<Rightarrow> (Inl err, tr2)
      | Inr draft \<Rightarrow>
     (case applyTasks L cad tr2 draft repositoryObj obj packageConfig of
        (Some err, tr3) \<Rightarrow> (Inl err, tr3)
      | (None, tr3) \<Rightarrow>
     (let tr4 = tr3 @ [DraftUpdateLifecycle draft (Lifecycle (Spec obj))] in
      case draftUpdateLifecycle cad tr3 draft (Lifecycle (Spec obj)) of
        Some err \<Rightarrow> (Inl err, tr4)
      | None \<Rightarrow>
     (let tr5 = tr4 @ [DraftClose draft] in
      case draftClose cad tr4 draft of
        Inl err \<Rightarrow> (Inl err, tr5)
      | Inr repoPkgRev \<Rightarrow>
     (let pkgRevMeta = metaOf repoPkgRev obj;
          tr6 = tr5 @ [MetadataStoreCreate pkgRevMeta repositoryObj] in
      case metadataStoreCreate cad tr5 pkgRevMeta repositoryObj of
        Inl err \<Rightarrow> (Inl err, tr6)
      | Inr pkgRevMeta' \<Rightarrow>
          (Inr \<lparr>repoPackageRevision = repoPkgRev, packageRevisionMeta = pkgRevMeta'\<rparr>,
           tr6)))))))))"

subsection \<open>Updating a package revision\<close>

text \<open>\<^verbatim>\<open>recloneAndReplay\<close> (1163-1183).\<close>

definition recloneAndReplay ::
  "Library \<Rightarrow> cadEngine \<Rightarrow> call list \<Rightarrow> nat \<Rightarrow> Repository \<Rightarrow> ApiPackageRevision
     \<Rightarrow> PackageConfig \<Rightarrow> (error + RepoPackageRevision) \<times> call list" where
  "recloneAndReplay L cad tr repo repositoryObj newObj packageConfig =
     (let tr1 = tr @ [RepoCreatePackageRevision repo newObj] in
      case repoCreatePackageRevision cad tr repo newObj of
        Inl err \<Rightarrow> (Inl err, tr1)
      | Inr draft \<Rightarrow>
     (case applyTasks L cad tr1 draft repositoryObj newObj packageConfig of
        (Some err, tr2) \<Rightarrow> (Inl err, tr2)
      | (None, tr2) \<Rightarrow>
     (let tr3 = tr2 @ [DraftUpdateLifecycle draft (Lifecycle (Spec newObj))] in
      case draftUpdateLifecycle cad tr2 draft (Lifecycle (Spec newObj)) of
        Some err \<Rightarrow> (Inl err, tr3)
      | None \<Rightarrow> (draftClose cad tr3 draft, tr3 @ [DraftClose draft]))))"

text \<open>\<^verbatim>\<open>convertStatusToKptfile\<close> (661-672) and \<^verbatim>\<open>createKptfilePatchTask\<close> (585-659), which
  returns the task when it made one.\<close>

definition convertStatusToKptfile :: "string \<Rightarrow> error + string" where
  "convertStatusToKptfile s =
     (if s = ConditionTrue then Inr ConditionTrue
      else if s = ConditionFalse then Inr ConditionFalse
      else if s = ConditionUnknown then Inr ConditionUnknown
      else Inl (Panic (Errorf ''unknown condition status: %v'' [S s])))"

fun convertConditions :: "Condition list \<Rightarrow> KptCondition list \<Rightarrow> error + KptCondition list" where
  "convertConditions [] conditions = Inr conditions"
| "convertConditions (c # cs) conditions =
     (case convertStatusToKptfile (CondStatus c) of
        Inl err \<Rightarrow> Inl err
      | Inr st \<Rightarrow>
          convertConditions cs
            (conditions @ [\<lparr>KfType = CondType c, KfStatus = st, KfReason = CondReason c,
                             KfMessage = CondMessage c\<rparr>]))"

definition createKptfilePatchTask ::
  "Library \<Rightarrow> RepoPackageRevision \<Rightarrow> ApiPackageRevision \<Rightarrow> error + Task option" where
  "createKptfilePatchTask L oldPackage newObj =
     (case GetKptfile oldPackage of
        Inl err \<Rightarrow> Inl err
      | Inr kf \<Rightarrow>
     (case yamlEncode L kf of
        Inl err \<Rightarrow> Inl err
      | Inr orgKfString \<Rightarrow>
     (let readinessGates = ReadinessGates (Spec newObj) in
      case convertConditions (StatusConditions newObj) [] of
        Inl err \<Rightarrow> Inl err
      | Inr conditions \<Rightarrow>
     (let kf1 = (if Info kf = None \<and> length readinessGates > 0
                 then kf\<lparr>Info := Some \<lparr>InfoReadinessGates = [], InfoOther = []\<rparr>\<rparr> else kf);
          kf2 = (if length readinessGates > 0
                 then kf1\<lparr>Info := map_option (\<lambda>i. i\<lparr>InfoReadinessGates := readinessGates\<rparr>)
                                     (Info kf1)\<rparr>
                 else kf1);
          kf3 = (if Status kf2 = None \<and> length conditions > 0
                 then kf2\<lparr>Status := Some \<lparr>Conditions = []\<rparr>\<rparr> else kf2);
          kf4 = (if length conditions > 0
                 then kf3\<lparr>Status := map_option (\<lambda>st. st\<lparr>Conditions := conditions\<rparr>)
                                       (Status kf3)\<rparr>
                 else kf3)
      in case yamlEncode L kf4 of
        Inl err \<Rightarrow> Inl err
      | Inr newKfString \<Rightarrow>
     (case GeneratePatch L KptFileName orgKfString newKfString of
        Inl err \<Rightarrow> Inl err
      | Inr patchSpec \<Rightarrow>
          if Contents patchSpec = [] then Inr None
          else Inr (Some (emptyTask\<lparr>Type := TaskTypePatch,
                            Patch := Some \<lparr>Patches = [patchSpec]\<rparr>\<rparr>)))))))"

text \<open>\<^verbatim>\<open>UpdatePackageRevision\<close> (427-583) in three parts: \<open>appendedMutations\<close> is the check
  of the two task lists and the mutation for an appended task (480-518);
  \<open>appendUpdate\<close> is the rest of the append path (480-583); \<open>UpdatePackageRevision\<close> is
  the function, from the lifecycle switch to the choice of the path.\<close>

definition appendedMutations ::
  "Repository \<Rightarrow> ApiPackageRevision \<Rightarrow> ApiPackageRevision \<Rightarrow> error + mutation list" where
  "appendedMutations repositoryObj oldObj newObj =
     (let oldTasks = Tasks (Spec oldObj); newTasks = Tasks (Spec newObj) in
      if length oldTasks > length newTasks
      then Inl (Errorf ''removing tasks is not yet supported'' [])
      else if list_ex (\<lambda>i. Type (oldTasks ! i) \<noteq> Type (newTasks ! i)) [0..<length oldTasks]
      then Inl (Errorf ''changing task types is not yet supported'' [])
      else if length newTasks > length oldTasks then
        (if length newTasks > length oldTasks + 1
         then Inl (Errorf ''can only append one task at a time'' [])
         else (let newTask = newTasks ! (length newTasks - 1) in
               if Type newTask \<noteq> TaskTypeUpdate
               then Inl (Errorf ''appended task is type %q, must be type %q''
                           [S (Type newTask), S TaskTypeUpdate])
               else if Update newTask = None
               then Inl (Errorf ''update not set for updateTask of type %q''
                           [S (Type newTask)])
               else (case findCloneTask oldObj of
                       None \<Rightarrow>
                         Inl (Errorf
                           ''upstream source not found for package rev %q; only cloned packages can be updated''
                           [S (PackageName (Spec oldObj))])
                     | Some cloneTask \<Rightarrow>
                         Inr [updatePackageMutation (Some cloneTask) newTask
                                (RepoNamespace repositoryObj) (Name oldObj)])))
      else Inr [])"

definition appendUpdate ::
  "Library \<Rightarrow> cadEngine \<Rightarrow> call list \<Rightarrow> nat \<Rightarrow> Repository \<Rightarrow> PackageRevision
     \<Rightarrow> ApiPackageRevision \<Rightarrow> ApiPackageRevision \<Rightarrow> (error + PackageRevision) \<times> call list" where
  "appendUpdate L cad tr repo repositoryObj oldPackage oldObj newObj =
     (case appendedMutations repositoryObj oldObj newObj of
        Inl err \<Rightarrow> (Inl err, tr)
      | Inr mutations0 \<Rightarrow>
     (let mutations1 = conditionalAddRender mutations0;
          tr1 = tr @ [RepoUpdatePackageRevision repo (repoPackageRevision oldPackage)] in
      case repoUpdatePackageRevision cad tr repo (repoPackageRevision oldPackage) of
        Inl err \<Rightarrow> (Inl err, tr1)
      | Inr draft \<Rightarrow>
     (case createKptfilePatchTask L (repoPackageRevision oldPackage) newObj of
        Inl err \<Rightarrow> (Inl err, tr1)
      | Inr kfPatchTask \<Rightarrow>
     (case (case kfPatchTask of
              None \<Rightarrow> Inr mutations1
            | Some t \<Rightarrow> (case buildPatchMutation L t of
                           Inl err \<Rightarrow> Inl err
                         | Inr kfPatchMutation \<Rightarrow> Inr (mutations1 @ [kfPatchMutation]))) of
        Inl err \<Rightarrow> (Inl err, tr1)
      | Inr mutations2 \<Rightarrow>
     (let mutations3 = conditionalAddRender mutations2 in
      case (if Lifecycle (Spec oldObj) = PackageRevisionLifecycleDraft
            then (case GetResources oldPackage of
                    Inl err \<Rightarrow>
                      (Some (Errorf ''cannot get package resources: %w'' [E err]), tr1)
                  | Inr apiResources \<Rightarrow>
                      applyResourceMutations L cad tr1 draft (SpecResources apiResources)
                        mutations3)
            else (None, tr1)) of
        (Some err, tr2) \<Rightarrow> (Inl err, tr2)
      | (None, tr2) \<Rightarrow>
     (let tr3 = tr2 @ [DraftUpdateLifecycle draft (Lifecycle (Spec newObj))] in
      case draftUpdateLifecycle cad tr2 draft (Lifecycle (Spec newObj)) of
        Some err \<Rightarrow> (Inl err, tr3)
      | None \<Rightarrow>
     (let tr4 = tr3 @ [DraftClose draft] in
      case draftClose cad tr3 draft of
        Inl err \<Rightarrow> (Inl err, tr4)
      | Inr repoPkgRev \<Rightarrow>
          (let pkgRevMeta = metaOf repoPkgRev newObj in
           (Inr \<lparr>repoPackageRevision = repoPkgRev, packageRevisionMeta = pkgRevMeta\<rparr>,
            tr4 @ [MetadataStoreUpdate pkgRevMeta])))))))))"

definition UpdatePackageRevision ::
  "Library \<Rightarrow> cadEngine \<Rightarrow> call list \<Rightarrow> Repository \<Rightarrow> PackageRevision
     \<Rightarrow> ApiPackageRevision \<Rightarrow> ApiPackageRevision \<Rightarrow> PackageRevision option
     \<Rightarrow> (error + PackageRevision) \<times> call list" where
  "UpdatePackageRevision L cad tr repositoryObj oldPackage oldObj newObj parent =
     (let tr1 = tr @ [OpenRepository repositoryObj] in
      case cacheOpenRepository cad tr repositoryObj of
        Inl err \<Rightarrow> (Inl err, tr1)
      | Inr repo \<Rightarrow>
          if Lifecycle (Spec oldObj) = PackageRevisionLifecyclePublished then
            (let repoPkgRev = repoPackageRevision oldPackage;
                 pkgRevMeta = metaOf repoPkgRev newObj in
             (Inr \<lparr>repoPackageRevision = repoPkgRev, packageRevisionMeta = pkgRevMeta\<rparr>,
              tr1 @ [MetadataStoreUpdate pkgRevMeta]))
          else if Lifecycle (Spec oldObj) \<noteq> PackageRevisionLifecycleDraft \<and>
                  Lifecycle (Spec oldObj) \<noteq> PackageRevisionLifecycleProposed then
            (Inl (Errorf ''invalid original lifecycle value: %q'' [S (Lifecycle (Spec oldObj))]),
             tr1)
          else if Lifecycle (Spec newObj) \<noteq> PackageRevisionLifecycleDraft \<and>
                  Lifecycle (Spec newObj) \<noteq> PackageRevisionLifecycleProposed \<and>
                  Lifecycle (Spec newObj) \<noteq> PackageRevisionLifecyclePublished then
            (Inl (Errorf ''invalid desired lifecycle value: %q'' [S (Lifecycle (Spec newObj))]),
             tr1)
          else if isRecloneAndReplay oldObj newObj then
            (case buildPackageConfig L newObj parent of
               Inl err \<Rightarrow> (Inl err, tr1)
             | Inr packageConfig \<Rightarrow>
                 (case recloneAndReplay L cad tr1 repo repositoryObj newObj packageConfig of
                    (Inl err, tr2) \<Rightarrow> (Inl err, tr2)
                  | (Inr repoPkgRev, tr2) \<Rightarrow>
                      (Inr \<lparr>repoPackageRevision = repoPkgRev,
                            packageRevisionMeta = emptyMeta\<rparr>, tr2)))
          else appendUpdate L cad tr1 repo repositoryObj oldPackage oldObj newObj)"

subsection \<open>Deleting a revision, replacing its resources\<close>

text \<open>\<^verbatim>\<open>DeletePackageRevision\<close> (693-715).\<close>

definition DeletePackageRevision ::
  "cadEngine \<Rightarrow> call list \<Rightarrow> Repository \<Rightarrow> PackageRevision \<Rightarrow> error option \<times> call list" where
  "DeletePackageRevision cad tr repositoryObj oldPackage =
     (let tr1 = tr @ [OpenRepository repositoryObj] in
      case cacheOpenRepository cad tr repositoryObj of
        Inl err \<Rightarrow> (Some err, tr1)
      | Inr repo \<Rightarrow>
     (let tr2 = tr1 @ [RepoDeletePackageRevision repo (repoPackageRevision oldPackage)] in
      case repoDeletePackageRevision cad tr1 repo (repoPackageRevision oldPackage) of
        Some err \<Rightarrow> (Some err, tr2)
      | None \<Rightarrow>
     (let name = KubeObjectName (repoPackageRevision oldPackage);
          namespace = KubeObjectNamespace (repoPackageRevision oldPackage) in
      (metadataStoreDelete cad tr2 name namespace, tr2 @ [MetadataStoreDelete name namespace]))))"

text \<open>\<^verbatim>\<open>UpdatePackageResources\<close> (783-844).\<close>

definition UpdatePackageResources ::
  "Library \<Rightarrow> cadEngine \<Rightarrow> call list \<Rightarrow> Repository \<Rightarrow> PackageRevision
     \<Rightarrow> PackageRevisionResources \<Rightarrow> PackageRevisionResources
     \<Rightarrow> (error + PackageRevision) \<times> call list" where
  "UpdatePackageResources L cad tr repositoryObj oldPackage old new =
     (case RepoGetPackageRevision (repoPackageRevision oldPackage) of
        Inl err \<Rightarrow> (Inl err, tr)
      | Inr pkgRev \<Rightarrow>
     (let lifecycle = Lifecycle (Spec pkgRev) in
      if lifecycle = PackageRevisionLifecycleProposed \<or>
         lifecycle = PackageRevisionLifecyclePublished then
        (Inl (Errorf
           ''cannot update a package revision with lifecycle value %q; package must be Draft''
           [S lifecycle]), tr)
      else if lifecycle \<noteq> PackageRevisionLifecycleDraft then
        (Inl (Errorf ''invalid original lifecycle value: %q'' [S lifecycle]), tr)
      else
     (let tr1 = tr @ [OpenRepository repositoryObj] in
      case cacheOpenRepository cad tr repositoryObj of
        Inl err \<Rightarrow> (Inl err, tr1)
      | Inr repo \<Rightarrow>
     (let tr2 = tr1 @ [RepoUpdatePackageRevision repo (repoPackageRevision oldPackage)] in
      case repoUpdatePackageRevision cad tr1 repo (repoPackageRevision oldPackage) of
        Inl err \<Rightarrow> (Inl err, tr2)
      | Inr draft \<Rightarrow>
     (let mutations = [mutationReplaceResources new old, renderPackageMutation] in
      case RepoGetResources (repoPackageRevision oldPackage) of
        Inl err \<Rightarrow> (Inl (Errorf ''cannot get package resources: %w'' [E err]), tr2)
      | Inr apiResources \<Rightarrow>
     (case applyResourceMutations L cad tr2 draft (SpecResources apiResources) mutations of
        (Some err, tr3) \<Rightarrow> (Inl err, tr3)
      | (None, tr3) \<Rightarrow>
     (case draftClose cad tr3 draft of
        Inl err \<Rightarrow> (Inl err, tr3 @ [DraftClose draft])
      | Inr repoPkgRev \<Rightarrow>
          (Inr \<lparr>repoPackageRevision = repoPkgRev, packageRevisionMeta = emptyMeta\<rparr>,
           tr3 @ [DraftClose draft]))))))))"

subsection \<open>Reading the calls\<close>

text \<open>\<open>chainCalls draft ms calls\<close>: the calls are, for each mutation of \<open>ms\<close> in order, its
  \<^verbatim>\<open>Apply\<close> and then one \<^verbatim>\<open>UpdateResources\<close> on the draft, which records the audit task.
  \<open>appliedMutations\<close> and \<open>recordedTasks\<close> read the mutations applied and the tasks
  recorded off a list of calls.\<close>

fun chainCalls :: "nat \<Rightarrow> mutation list \<Rightarrow> call list \<Rightarrow> bool" where
  "chainCalls draft [] calls = (calls = [])"
| "chainCalls draft (m # ms) calls =
     (case calls of
        MutationApply m' baseResources # DraftUpdateResources d res task # calls' \<Rightarrow>
          m' = m \<and> d = draft \<and> chainCalls draft ms calls'
      | _ \<Rightarrow> False)"

definition appliedMutations :: "call list \<Rightarrow> mutation list" where
  "appliedMutations calls =
     concat (map (\<lambda>c. case c of MutationApply m baseResources \<Rightarrow> [m] | _ \<Rightarrow> []) calls)"

definition recordedTasks :: "call list \<Rightarrow> Task option list" where
  "recordedTasks calls =
     concat (map (\<lambda>c. case c of DraftUpdateResources d res task \<Rightarrow> [task] | _ \<Rightarrow> []) calls)"

text \<open>The revisions handed to \<^verbatim>\<open>repo.CreatePackageRevision\<close> and to
  \<^verbatim>\<open>repo.UpdatePackageRevision\<close>, and the calls on the metadata store.\<close>

definition createdDrafts :: "call list \<Rightarrow> ApiPackageRevision list" where
  "createdDrafts calls =
     concat (map (\<lambda>c. case c of RepoCreatePackageRevision repo obj \<Rightarrow> [obj] | _ \<Rightarrow> []) calls)"

definition reopenedDrafts :: "call list \<Rightarrow> RepoPackageRevision list" where
  "reopenedDrafts calls =
     concat (map (\<lambda>c. case c of RepoUpdatePackageRevision repo pkgRev \<Rightarrow> [pkgRev] | _ \<Rightarrow> [])
               calls)"

definition metadataCalls :: "call list \<Rightarrow> call list" where
  "metadataCalls calls =
     filter (\<lambda>c. case c of MetadataStoreCreate pkgRevMeta repositoryObj \<Rightarrow> True
                  | MetadataStoreUpdate pkgRevMeta \<Rightarrow> True
                  | MetadataStoreDelete name namespace \<Rightarrow> True
                  | _ \<Rightarrow> False) calls"


subsection \<open>Example collaborators\<close>

text \<open>A library and an engine whose collaborators all succeed, for running the model on
  concrete requests. The example YAML parser reads a document \<^verbatim>\<open>kind: K\<close> as an object of
  kind \<open>K\<close> with the context name, and rejects anything else.\<close>

definition exampleLibrary :: Library where
  "exampleLibrary = \<lparr>
     yamlUnmarshal = (\<lambda>s. if prefix ''kind: '' s
        then Inr \<lparr>Group = [], Kind = drop 6 s, GetName = PkgContextName, Object = s\<rparr>
        else Inl (External ''yaml: cannot unmarshal'')),
     FromUnstructured = (\<lambda>u. Inr [(ConfigKeyPackagePath, ''foo/bar'')]),
     yamlEncode = (\<lambda>kf. Inr (KptfileOther kf)),
     buildPatchMutation = (\<lambda>t. Inr (applyPatchMutation t)),
     GeneratePatch = (\<lambda>k oldV newV.
        Inr \<lparr>File = k, Contents = (if oldV = newV then [] else oldV @ ''=>'' @ newV),
             PatchType = ''PatchFile''\<rparr>),
     packageReaderRead = (\<lambda>r. Inr ([], r)),
     packageWriterWrite = (\<lambda>ns. Inr []),
     CopyComments = (\<lambda>original n. n),
     packageUpdaterUpdate = (\<lambda>l orig up. Inr up),
     UpdateKptfileUpstream = (\<lambda>c u l. Inr c),
     ensureMergeKey = (\<lambda>r. (r, None))\<rparr>"

definition exampleRepository :: Repository where
  "exampleRepository =
     \<lparr>RepoName = ''blueprints'', RepoNamespace = ''default'', Deployment = False\<rparr>"

definition exampleRevision :: RepoPackageRevision where
  "exampleRevision =
     \<lparr>KubeObjectName = ''blueprints-0a1b'', KubeObjectNamespace = ''default'',
      RepoGetPackageRevision = Inl (External ''not read''),
      RepoGetResources = Inr \<lparr>SpecResources = [(''Kptfile'', ''net'')]\<rparr>,
      GetKptfile = Inr \<lparr>Info = None, Status = None, KptfileOther = ''net''\<rparr>,
      GetLock = Inl (External ''no upstream'')\<rparr>"

definition auditTask :: "mutation \<Rightarrow> Task option" where
  "auditTask m =
     (case m of
        initPackageMutation name task \<Rightarrow> Some task
      | clonePackageMutation task namespace name isDeployment packageConfig \<Rightarrow> Some task
      | editPackageMutation task namespace \<Rightarrow> Some task
      | evalFunctionMutation task \<Rightarrow> Some task
      | applyPatchMutation task \<Rightarrow> Some task
      | renderPackageMutation \<Rightarrow>
          Some (emptyTask\<lparr>Type := TaskTypeEval,
                  Eval := Some \<lparr>Image = ''render'', ConfigMap = []\<rparr>\<rparr>)
      | _ \<Rightarrow> None)"

definition exampleEngine :: cadEngine where
  "exampleEngine =
     \<lparr>cacheOpenRepository = (\<lambda>tr repositoryObj. Inr 7),
      repoCreatePackageRevision = (\<lambda>tr repo obj. Inr 1),
      repoUpdatePackageRevision = (\<lambda>tr repo pkgRev. Inr 2),
      repoDeletePackageRevision = (\<lambda>tr repo pkgRev. None),
      externalApply = (\<lambda>tr m resources. Inr (resources, auditTask m)),
      draftUpdateResources = (\<lambda>tr draft res task. None),
      draftUpdateLifecycle = (\<lambda>tr draft lifecycle. None),
      draftClose = (\<lambda>tr draft. Inr exampleRevision),
      metadataStoreCreate = (\<lambda>tr pkgRevMeta repositoryObj. Inr pkgRevMeta),
      metadataStoreDelete = (\<lambda>tr name namespace. None),
      FetchResources = (\<lambda>tr ref namespace. Inr \<lparr>SpecResources = []\<rparr>),
      FetchRevision = (\<lambda>tr ref namespace. Inl (External ''not found''))\<rparr>"

text \<open>The request of scenario S1: package \<^verbatim>\<open>net\<close>, lifecycle unset, no tasks; and the calls
  the engine makes for it.\<close>

definition exampleObj :: ApiPackageRevision where
  "exampleObj =
     \<lparr>Name = ''blueprints-0a1b'', Namespace = ''default'', Labels = [(''team'', ''net'')],
      Annotations = [],
      Spec = \<lparr>PackageName = ''net'', Lifecycle = [], Tasks = [], ReadinessGates = []\<rparr>,
      StatusConditions = []\<rparr>"

definition exampleCreateCalls :: "call list" where
  "exampleCreateCalls =
   [OpenRepository exampleRepository,
    RepoCreatePackageRevision 7
      (exampleObj\<lparr>Spec := (Spec exampleObj)\<lparr>Lifecycle := PackageRevisionLifecycleDraft\<rparr>\<rparr>),
    MutationApply (initPackageMutation ''net''
      (emptyTask\<lparr>Init := Some \<lparr>Subpackage = [], Description = ''net description''\<rparr>\<rparr>)) [],
    DraftUpdateResources 1 \<lparr>SpecResources = []\<rparr>
      (Some (emptyTask\<lparr>Init := Some \<lparr>Subpackage = [], Description = ''net description''\<rparr>\<rparr>)),
    MutationApply renderPackageMutation [],
    DraftUpdateResources 1 \<lparr>SpecResources = []\<rparr>
      (Some (emptyTask\<lparr>Type := TaskTypeEval,
               Eval := Some \<lparr>Image = ''render'', ConfigMap = []\<rparr>\<rparr>)),
    DraftUpdateLifecycle 1 PackageRevisionLifecycleDraft,
    DraftClose 1,
    MetadataStoreCreate (metaOf exampleRevision exampleObj) exampleRepository]"

text \<open>A parent package with one YAML file of three documents (the second blank), a file that
  is not YAML, and a directory whose name ends in \<^verbatim>\<open>.yml\<close>.\<close>

definition exampleResources :: "(string \<times> string) list" where
  "exampleResources =
     [(''a/cm.YAML'', ''kind: ConfigMap\<newline>---\<newline> \<newline>---\<newline>kind: Deployment''),
      (''README.md'', ''kind: ConfigMap''),
      (''x.yml/notes'', ''kind: ConfigMap'')]"


definition publishedObj :: ApiPackageRevision where
  "publishedObj =
     \<lparr>Name = ''blueprints-0a1b'', Namespace = ''default'', Labels = [(''team'', ''net'')],
      Annotations = [],
      Spec = \<lparr>PackageName = ''net'', Lifecycle = PackageRevisionLifecyclePublished,
              Tasks = [emptyTask\<lparr>Type := TaskTypeInit,
                         Init := Some \<lparr>Subpackage = [], Description = ''net description''\<rparr>\<rparr>],
              ReadinessGates = []\<rparr>,
      StatusConditions = []\<rparr>"

definition relabelledObj :: ApiPackageRevision where
  "relabelledObj =
     \<lparr>Name = ''blueprints-0a1b'', Namespace = ''default'', Labels = [(''team'', ''core'')],
      Annotations = [(''owner'', ''alice'')],
      Spec = \<lparr>PackageName = ''net'', Lifecycle = PackageRevisionLifecycleDraft,
              Tasks = [], ReadinessGates = []\<rparr>,
      StatusConditions = []\<rparr>"

definition examplePackage :: PackageRevision where
  "examplePackage =
     \<lparr>repoPackageRevision = exampleRevision,
      packageRevisionMeta = metaOf exampleRevision publishedObj\<rparr>"

definition cloneTask :: "string \<Rightarrow> Task" where
  "cloneTask ref =
     emptyTask\<lparr>Type := TaskTypeClone,
       Clone := Some \<lparr>CloneUpstream = \<lparr>UpstreamType = [], UpstreamRef = Some \<lparr>RefName = ref\<rparr>\<rparr>,
                      Strategy = []\<rparr>\<rparr>"

definition patchTask :: Task where
  "patchTask = emptyTask\<lparr>Type := TaskTypePatch, Patch := Some \<lparr>Patches = []\<rparr>\<rparr>"

definition evalTask :: Task where
  "evalTask = emptyTask\<lparr>Type := TaskTypeEval,
     Eval := Some \<lparr>Image = ''gcr.io/kpt-fn/set-labels:v0.1'', ConfigMap = []\<rparr>\<rparr>"

definition draftObj :: "Task list \<Rightarrow> ApiPackageRevision" where
  "draftObj tasks =
     \<lparr>Name = ''blueprints-0a1b'', Namespace = ''default'', Labels = [(''team'', ''core'')],
      Annotations = [],
      Spec = \<lparr>PackageName = ''net'', Lifecycle = PackageRevisionLifecycleDraft,
              Tasks = tasks, ReadinessGates = []\<rparr>,
      StatusConditions = []\<rparr>"

text \<open>The calls of scenario S4: the old revision clones \<^verbatim>\<open>base-v1\<close>, the new one
  \<^verbatim>\<open>base-v2\<close>, both followed by the same patch.\<close>

definition exampleRecloneCalls :: "call list" where
  "exampleRecloneCalls =
   [OpenRepository exampleRepository,
    RepoCreatePackageRevision 7 (draftObj [cloneTask ''base-v2'', patchTask]),
    MutationApply (clonePackageMutation (cloneTask ''base-v2'') ''default'' ''net'' False
                     \<lparr>PackagePath = ''net''\<rparr>) [],
    DraftUpdateResources 1 \<lparr>SpecResources = []\<rparr> (Some (cloneTask ''base-v2'')),
    MutationApply (applyPatchMutation patchTask) [],
    DraftUpdateResources 1 \<lparr>SpecResources = []\<rparr> (Some patchTask),
    MutationApply renderPackageMutation [],
    DraftUpdateResources 1 \<lparr>SpecResources = []\<rparr>
      (Some (emptyTask\<lparr>Type := TaskTypeEval,
               Eval := Some \<lparr>Image = ''render'', ConfigMap = []\<rparr>\<rparr>)),
    DraftUpdateLifecycle 1 PackageRevisionLifecycleDraft,
    DraftClose 1]"

text \<open>The calls of an update that changes nothing (the append path), and of the creation
  of a revision whose one task is a Clone.\<close>

definition exampleAppendCalls :: "call list" where
  "exampleAppendCalls =
   [OpenRepository exampleRepository,
    RepoUpdatePackageRevision 7 exampleRevision,
    DraftUpdateLifecycle 2 PackageRevisionLifecycleDraft,
    DraftClose 2,
    MetadataStoreUpdate (metaOf exampleRevision (draftObj [cloneTask ''base-v1'', patchTask]))]"


text \<open>A parent package holding the context ConfigMap, a child request for the package
  \<^verbatim>\<open>baz\<close>, and the calls of a deletion.\<close>

definition parentPackage :: PackageRevision where
  "parentPackage =
     \<lparr>repoPackageRevision =
        exampleRevision\<lparr>RepoGetPackageRevision := Inr (draftObj []),
          RepoGetResources := Inr \<lparr>SpecResources = exampleResources\<rparr>\<rparr>,
      packageRevisionMeta = emptyMeta\<rparr>"

definition childObj :: ApiPackageRevision where
  "childObj = exampleObj\<lparr>Spec := (Spec exampleObj)\<lparr>PackageName := ''baz''\<rparr>\<rparr>"

definition exampleDeleteCalls :: "call list" where
  "exampleDeleteCalls =
     [OpenRepository exampleRepository,
      RepoDeletePackageRevision 7 exampleRevision,
      MetadataStoreDelete ''blueprints-0a1b'' ''default'']"

text \<open>The claim's words for the audit task of a replacement: the patch expected for a file,
  from the old and the new file set, and the files that differ, the new ones first.\<close>

definition expectedPatch ::
  "Library \<Rightarrow> (string \<times> string) list \<Rightarrow> (string \<times> string) list \<Rightarrow> string
     \<Rightarrow> PatchSpec option" where
  "expectedPatch L old new k =
     (case (map_of old k, map_of new k) of
        (None, None) \<Rightarrow> None
      | (None, Some newV) \<Rightarrow>
          Some \<lparr>File = k, Contents = newV, PatchType = PatchTypeCreateFile\<rparr>
      | (Some oldV, None) \<Rightarrow>
          Some \<lparr>File = k, Contents = [], PatchType = PatchTypeDeleteFile\<rparr>
      | (Some oldV, Some newV) \<Rightarrow>
          if oldV = newV then None
          else (case GeneratePatch L k oldV newV of
                  Inl err \<Rightarrow> None
                | Inr patchSpec \<Rightarrow> Some patchSpec))"

definition differingFiles ::
  "(string \<times> string) list \<Rightarrow> (string \<times> string) list \<Rightarrow> string list" where
  "differingFiles old new =
     filter (\<lambda>k. map_of old k \<noteq> map_of new k) (map fst new) @
     filter (\<lambda>k. map_of new k = None) (map fst old)"

text \<open>A library whose package reader fails, a stored draft revision, and two file sets:
  \<^verbatim>\<open>a.yaml\<close> unchanged, \<^verbatim>\<open>b.yaml\<close> modified, \<^verbatim>\<open>c.yaml\<close> deleted, \<^verbatim>\<open>d.yaml\<close> created.\<close>

definition brokenReaderLibrary :: Library where
  "brokenReaderLibrary =
     exampleLibrary\<lparr>packageReaderRead :=
       (\<lambda>r. Inl (External ''yaml: line 2: did not find expected key''))\<rparr>"

definition draftRevision :: RepoPackageRevision where
  "draftRevision = exampleRevision\<lparr>RepoGetPackageRevision := Inr (draftObj [])\<rparr>"

definition exampleOldFiles :: "(string \<times> string) list" where
  "exampleOldFiles = [(''a.yaml'', ''1''), (''b.yaml'', ''2''), (''c.yaml'', ''3'')]"

definition exampleNewFiles :: "(string \<times> string) list" where
  "exampleNewFiles = [(''a.yaml'', ''1''), (''b.yaml'', ''20''), (''d.yaml'', ''4'')]"

definition exampleReplaceTask :: Task where
  "exampleReplaceTask =
     emptyTask\<lparr>Type := TaskTypePatch,
       Patch := Some \<lparr>Patches =
         [\<lparr>File = ''b.yaml'', Contents = ''2=>20'', PatchType = ''PatchFile''\<rparr>,
          \<lparr>File = ''d.yaml'', Contents = ''4'', PatchType = PatchTypeCreateFile\<rparr>,
          \<lparr>File = ''c.yaml'', Contents = [], PatchType = PatchTypeDeleteFile\<rparr>]\<rparr>\<rparr>"

section \<open>Properties\<close>

lemmas api_constants =
  TaskTypeInit_def TaskTypeClone_def TaskTypePatch_def TaskTypeEdit_def TaskTypeEval_def
  TaskTypeUpdate_def PackageRevisionLifecycleDraft_def PackageRevisionLifecycleProposed_def
  PackageRevisionLifecyclePublished_def RepositoryTypeGit_def RepositoryTypeOCI_def
  PatchTypeCreateFile_def PatchTypeDeleteFile_def ConditionTrue_def ConditionFalse_def
  ConditionUnknown_def

subsection \<open>The mutation pipeline and its calls\<close>

lemma conditionalAddRender_eq:
  "conditionalAddRender M =
     (if M = [] \<or> last M = renderPackageMutation then M else M @ [renderPackageMutation])"
  by (cases "last M") (auto simp: conditionalAddRender_def)

lemma chainCalls_applied: "chainCalls draft ms calls \<Longrightarrow> appliedMutations calls = ms"
  by (induction draft ms calls rule: chainCalls.induct)
     (auto simp: appliedMutations_def split: list.splits call.splits)

lemma chainCalls_recorded:
  "chainCalls draft ms calls \<Longrightarrow> length (recordedTasks calls) = length ms"
  by (induction draft ms calls rule: chainCalls.induct)
     (auto simp: recordedTasks_def split: list.splits call.splits)

lemma appliedMutations_append:
  "appliedMutations (xs @ ys) = appliedMutations xs @ appliedMutations ys"
  by (simp add: appliedMutations_def)

lemma recordedTasks_append:
  "recordedTasks (xs @ ys) = recordedTasks xs @ recordedTasks ys"
  by (simp add: recordedTasks_def)

lemma applyResourceMutations_calls:
  "applyResourceMutations L cad tr draft baseResources ms = (None, tr') \<Longrightarrow>
   \<exists>calls. tr' = tr @ calls \<and> chainCalls draft ms calls"
proof (induction ms arbitrary: tr baseResources)
  case Nil
  then show ?case by simp
next
  case (Cons m ms)
  from Cons.prems obtain applied task where
    ap: "Apply L cad tr m baseResources = Inr (applied, task)"
    and up: "draftUpdateResources cad (tr @ [MutationApply m baseResources]) draft
               \<lparr>SpecResources = applied\<rparr> task = None"
    and rest: "applyResourceMutations L cad
                 (tr @ [MutationApply m baseResources,
                        DraftUpdateResources draft \<lparr>SpecResources = applied\<rparr> task])
                 draft applied ms = (None, tr')"
    by (auto simp: Let_def split: sum.splits option.splits prod.splits)
  from Cons.IH [OF rest] obtain calls where
    "tr' = (tr @ [MutationApply m baseResources,
                  DraftUpdateResources draft \<lparr>SpecResources = applied\<rparr> task]) @ calls"
    and "chainCalls draft ms calls" by blast
  then show ?case
    by (intro exI [of _ "MutationApply m baseResources #
          DraftUpdateResources draft \<lparr>SpecResources = applied\<rparr> task # calls"]) simp
qed

lemma mapTasks_mapped:
  "mapTasks L obj isDeployment packageConfig tasks mutations = Inr M \<Longrightarrow>
   \<exists>ms. M = mutations @ ms \<and>
        list_all2 (\<lambda>task m. mapTaskToMutation L obj task isDeployment packageConfig = Inr m)
          tasks ms"
proof (induction tasks arbitrary: mutations)
  case Nil
  then show ?case by simp
next
  case (Cons task tasks)
  from Cons.prems obtain m where
    m: "mapTaskToMutation L obj task isDeployment packageConfig = Inr m"
    and rest: "mapTasks L obj isDeployment packageConfig tasks (mutations @ [m]) = Inr M"
    by (auto split: sum.splits)
  from Cons.IH [OF rest] obtain ms where
    "M = (mutations @ [m]) @ ms"
    "list_all2 (\<lambda>task m. mapTaskToMutation L obj task isDeployment packageConfig = Inr m)
       tasks ms" by blast
  with m show ?case by (intro exI [of _ "m # ms"]) simp
qed

lemma applyTasks_calls:
  assumes "applyTasks L cad tr draft repositoryObj obj packageConfig = (None, tr')"
  shows "\<exists>M calls.
     mapTasks L obj (Deployment repositoryObj) packageConfig (Tasks (Spec obj))
       (initialMutations obj) = Inr M \<and>
     tr' = tr @ calls \<and> chainCalls draft (conditionalAddRender M) calls"
  using assms applyResourceMutations_calls
  by (auto simp: applyTasks_def split: sum.splits)

subsection \<open>Creating a revision\<close>



lemma CreatePackageRevision_calls:
  assumes "CreatePackageRevision L cad tr repositoryObj obj0 parent = (Inr pr, tr')"
  shows "\<exists>packageConfig obj repo draft M calls.
     buildPackageConfig L obj0 parent = Inr packageConfig \<and>
     checkCreateLifecycle obj0 = Inr obj \<and>
     mapTasks L obj (Deployment repositoryObj) packageConfig (Tasks (Spec obj))
       (initialMutations obj) = Inr M \<and>
     chainCalls draft (conditionalAddRender M) calls \<and>
     tr' = tr @ [OpenRepository repositoryObj, RepoCreatePackageRevision repo obj] @ calls @
       [DraftUpdateLifecycle draft (Lifecycle (Spec obj)), DraftClose draft,
        MetadataStoreCreate (metaOf (repoPackageRevision pr) obj) repositoryObj]"
proof -
  from assms obtain packageConfig obj repo draft tr3 repoPkgRev where
    cfg: "buildPackageConfig L obj0 parent = Inr packageConfig"
    and lc: "checkCreateLifecycle obj0 = Inr obj"
    and ap: "applyTasks L cad
               (tr @ [OpenRepository repositoryObj, RepoCreatePackageRevision repo obj])
               draft repositoryObj obj packageConfig = (None, tr3)"
    and tr': "tr' = tr3 @ [DraftUpdateLifecycle draft (Lifecycle (Spec obj)), DraftClose draft,
        MetadataStoreCreate (metaOf repoPkgRev obj) repositoryObj]"
    and pr: "repoPackageRevision pr = repoPkgRev"
    unfolding CreatePackageRevision_def
    by (auto simp: Let_def split: sum.splits option.splits prod.splits)
  from applyTasks_calls [OF ap] obtain M calls where
    "mapTasks L obj (Deployment repositoryObj) packageConfig (Tasks (Spec obj))
       (initialMutations obj) = Inr M"
    "tr3 = (tr @ [OpenRepository repositoryObj, RepoCreatePackageRevision repo obj]) @ calls"
    "chainCalls draft (conditionalAddRender M) calls" by blast
  with cfg lc tr' pr show ?thesis by auto
qed

lemma CreatePackageRevision_applied:
  assumes "CreatePackageRevision L cad tr repositoryObj obj0 parent = (Inr pr, tr')"
  shows "\<exists>packageConfig obj M.
     buildPackageConfig L obj0 parent = Inr packageConfig \<and>
     checkCreateLifecycle obj0 = Inr obj \<and>
     mapTasks L obj (Deployment repositoryObj) packageConfig (Tasks (Spec obj))
       (initialMutations obj) = Inr M \<and>
     appliedMutations (drop (length tr) tr') = conditionalAddRender M \<and>
     length (recordedTasks (drop (length tr) tr')) = length (conditionalAddRender M)"
proof -
  from CreatePackageRevision_calls [OF assms] obtain packageConfig obj repo draft M calls where
    a: "buildPackageConfig L obj0 parent = Inr packageConfig"
       "checkCreateLifecycle obj0 = Inr obj"
       "mapTasks L obj (Deployment repositoryObj) packageConfig (Tasks (Spec obj))
          (initialMutations obj) = Inr M"
    and ch: "chainCalls draft (conditionalAddRender M) calls"
    and tr': "tr' = tr @ [OpenRepository repositoryObj, RepoCreatePackageRevision repo obj] @
       calls @ [DraftUpdateLifecycle draft (Lifecycle (Spec obj)), DraftClose draft,
        MetadataStoreCreate (metaOf (repoPackageRevision pr) obj) repositoryObj]"
    by blast
  have "appliedMutations (drop (length tr) tr') = appliedMutations calls"
    by (simp add: tr' appliedMutations_append) (simp add: appliedMutations_def)
  moreover have "recordedTasks (drop (length tr) tr') = recordedTasks calls"
    by (simp add: tr' recordedTasks_append) (simp add: recordedTasks_def)
  ultimately show ?thesis
    using a chainCalls_applied [OF ch] chainCalls_recorded [OF ch] by auto
qed

lemma exampleCreate_run:
  "CreatePackageRevision exampleLibrary exampleEngine [] exampleRepository exampleObj None =
     (Inr \<lparr>repoPackageRevision = exampleRevision,
           packageRevisionMeta = metaOf exampleRevision exampleObj\<rparr>, exampleCreateCalls)"
  by (simp add: CreatePackageRevision_def buildPackageConfig_def packagePathOf_def
      checkCreateLifecycle_def applyTasks_def initialMutations_def conditionalAddRender_def
      Apply_def exampleEngine_def exampleObj_def metaOf_def auditTask_def Let_def
      exampleCreateCalls_def)


lemma CreatePackageRevision_config_failure:
  "buildPackageConfig L obj parent = Inl err \<Longrightarrow>
   CreatePackageRevision L cad tr repositoryObj obj parent = (Inl err, tr)"
  by (simp add: CreatePackageRevision_def)

text \<open>
  \<^bold>\<open>C5\<close> (render appended once). Whenever \<^verbatim>\<open>CreatePackageRevision\<close> succeeds, let \<open>M\<close> be
  the mutation list built from the request (the inserted Init, if any, and one mutation per
  task). The mutations the engine applied are \<open>M\<close> followed by exactly one Render mutation,
  unless \<open>M\<close> is empty or already ends with a Render mutation, and then they are \<open>M\<close>
  itself. The draft recorded one audit task for each mutation applied.
\<close>

theorem CreatePackageRevision_render_appended:
  assumes "CreatePackageRevision L cad tr repositoryObj obj0 parent = (Inr pr, tr')"
  shows "\<exists>packageConfig obj M.
     buildPackageConfig L obj0 parent = Inr packageConfig \<and>
     checkCreateLifecycle obj0 = Inr obj \<and>
     mapTasks L obj (Deployment repositoryObj) packageConfig (Tasks (Spec obj))
       (initialMutations obj) = Inr M \<and>
     appliedMutations (drop (length tr) tr') =
       (if M = [] \<or> last M = renderPackageMutation then M else M @ [renderPackageMutation]) \<and>
     length (recordedTasks (drop (length tr) tr')) =
       length (appliedMutations (drop (length tr) tr'))"
  using CreatePackageRevision_applied [OF assms] conditionalAddRender_eq by metis

theorem CreatePackageRevision_render_appended_witness:
  "CreatePackageRevision exampleLibrary exampleEngine [] exampleRepository exampleObj None =
     (Inr \<lparr>repoPackageRevision = exampleRevision,
           packageRevisionMeta = metaOf exampleRevision exampleObj\<rparr>, exampleCreateCalls) \<and>
   appliedMutations (drop (length ([] :: call list)) exampleCreateCalls) =
     [initPackageMutation ''net''
        (emptyTask\<lparr>Init := Some \<lparr>Subpackage = [], Description = ''net description''\<rparr>\<rparr>),
      renderPackageMutation]"
  using CreatePackageRevision_render_appended [OF exampleCreate_run] exampleCreate_run
  by (simp add: exampleCreateCalls_def appliedMutations_def)

subsection \<open>The context extractor\<close>

lemma parseDocuments_parsed:
  "\<forall>s \<in> set ss. \<not> isWhitespace s \<longrightarrow> parses L s \<Longrightarrow>
   parseDocuments L itemPath ss matches =
     Inr (matches @ filter isContextConfigMap
            (concat (map (parsed L) (filter (\<lambda>s. \<not> isWhitespace s) ss))))"
  by (induction ss arbitrary: matches)
     (auto simp: parses_def parsed_def isContextConfigMap_def split: sum.splits)

lemma documentsOf_Cons:
  "documentsOf ((itemPath, itemContents) # resources) =
     (if isYamlFile itemPath
      then filter (\<lambda>s. \<not> isWhitespace s) (Split itemContents ''\<newline>---\<newline>'')
      else []) @ documentsOf resources"
  by (simp add: documentsOf_def)

lemma scanResources_parsed:
  "\<forall>s \<in> set (documentsOf resources). parses L s \<Longrightarrow>
   scanResources L resources matches = Inr (matches @ contextConfigMaps L resources)"
proof (induction resources arbitrary: matches)
  case Nil
  then show ?case by (simp add: contextConfigMaps_def documentsOf_def)
next
  case (Cons r resources)
  obtain itemPath itemContents where r: "r = (itemPath, itemContents)" by (cases r)
  have rest: "\<forall>s \<in> set (documentsOf resources). parses L s"
    using Cons.prems by (simp add: documentsOf_Cons r)
  show ?case
  proof (cases "isYamlFile itemPath")
    case True
    have docs: "\<forall>s \<in> set (Split itemContents ''\<newline>---\<newline>''). \<not> isWhitespace s \<longrightarrow> parses L s"
      using Cons.prems True by (simp add: documentsOf_Cons r)
    show ?thesis
      using True Cons.IH [OF rest] parseDocuments_parsed [OF docs]
      by (simp add: r isYamlFile_def contextConfigMaps_def documentsOf_Cons Let_def)
  next
    case False
    then show ?thesis
      using Cons.IH [OF rest]
      by (simp add: r isYamlFile_def contextConfigMaps_def documentsOf_Cons Let_def)
  qed
qed

lemma exampleResources_documents:
  "documentsOf exampleResources = [''kind: ConfigMap'', ''kind: Deployment'']"
  by code_simp



subsection \<open>The inserted Init and the lifecycle check of a creation\<close>





lemma exampleResources_context:
  "ExtractContextConfigMap exampleLibrary exampleResources =
     Inr (Some \<lparr>Group = [], Kind = ''ConfigMap'', GetName = PkgContextName,
                Object = ''kind: ConfigMap''\<rparr>)"
proof -
  have p: "\<forall>s \<in> set (documentsOf exampleResources). parses exampleLibrary s"
    unfolding exampleResources_documents by (simp add: parses_def exampleLibrary_def)
  have c: "contextConfigMaps exampleLibrary exampleResources =
      [\<lparr>Group = [], Kind = ''ConfigMap'', GetName = PkgContextName,
        Object = ''kind: ConfigMap''\<rparr>]"
    unfolding contextConfigMaps_def exampleResources_documents
    by (simp add: parsed_def exampleLibrary_def isContextConfigMap_def)
  show ?thesis
    using scanResources_parsed [OF p, of "[]"] by (simp add: ExtractContextConfigMap_def c)
qed

text \<open>
  \<^bold>\<open>X4\<close> (composition of the package path). When the parent's resources hold the context
  ConfigMap and its \<^verbatim>\<open>package-path\<close> entry is a non-empty \<open>s\<close>, the package path of the
  child's configuration is \<open>s\<close>, the parent's package name and the child's package name,
  joined by slashes.
\<close>

theorem buildPackageConfig_path:
  assumes "GetPackageRevision p = Inr parentObj"
    and "GetResources p = Inr resources"
    and "ExtractContextConfigMap L (SpecResources resources) = Inr (Some parentConfig)"
    and "FromUnstructured L parentConfig = Inr parentData"
    and "map_of parentData ConfigKeyPackagePath = Some s"
    and "s \<noteq> []"
  shows "buildPackageConfig L obj (Some p) =
     Inr \<lparr>PackagePath = s @ ''/'' @ PackageName (Spec parentObj) @ ''/'' @
                           PackageName (Spec obj)\<rparr>"
  using assms by (simp add: buildPackageConfig_def packagePathOf_def Let_def)

theorem buildPackageConfig_path_witness:
  "buildPackageConfig exampleLibrary childObj (Some parentPackage) =
     Inr \<lparr>PackagePath = ''foo/bar/net/baz''\<rparr>"
proof -
  have g: "GetPackageRevision parentPackage =
      Inr ((draftObj [])\<lparr>Labels := [], Annotations := []\<rparr>)"
    by (simp add: GetPackageRevision_def parentPackage_def draftObj_def emptyMeta_def
        LatestPackageRevisionKey_def Let_def)
  have r: "GetResources parentPackage = Inr \<lparr>SpecResources = exampleResources\<rparr>"
    by (simp add: GetResources_def parentPackage_def)
  have c: "ExtractContextConfigMap exampleLibrary
             (SpecResources \<lparr>SpecResources = exampleResources\<rparr>) =
     Inr (Some \<lparr>Group = [], Kind = ''ConfigMap'', GetName = PkgContextName,
                Object = ''kind: ConfigMap''\<rparr>)"
    by (simp add: exampleResources_context)
  have f: "FromUnstructured exampleLibrary
             \<lparr>Group = [], Kind = ''ConfigMap'', GetName = PkgContextName,
              Object = ''kind: ConfigMap''\<rparr> = Inr [(ConfigKeyPackagePath, ''foo/bar'')]"
    by (simp add: exampleLibrary_def)
  have m: "map_of [(ConfigKeyPackagePath, ''foo/bar'')] ConfigKeyPackagePath = Some ''foo/bar''"
    by simp
  have ne: "''foo/bar'' \<noteq> []" by simp
  from buildPackageConfig_path [OF g r c f m ne, of childObj]
  show ?thesis by (simp add: childObj_def exampleObj_def draftObj_def)
qed



subsection \<open>Updating a published revision\<close>

text \<open>
  \<^bold>\<open>C1\<close> (published: metadata only). When the old revision's lifecycle is Published,
  \<^verbatim>\<open>UpdatePackageRevision\<close> opens the repository and, unless that fails, makes one more call,
  \<^verbatim>\<open>metadataStore.Update\<close> with the name and namespace of the stored revision and the labels
  and annotations of the new object. It opens no draft, applies no mutation and records
  no task, and it returns the old repository revision with that metadata record.
\<close>

theorem UpdatePackageRevision_published:
  assumes "Lifecycle (Spec oldObj) = PackageRevisionLifecyclePublished"
  shows "UpdatePackageRevision L cad tr repositoryObj oldPackage oldObj newObj parent =
     (case cacheOpenRepository cad tr repositoryObj of
        Inl err \<Rightarrow> (Inl err, tr @ [OpenRepository repositoryObj])
      | Inr repo \<Rightarrow>
          (Inr \<lparr>repoPackageRevision = repoPackageRevision oldPackage,
                packageRevisionMeta =
                  \<lparr>MetaName = KubeObjectName (repoPackageRevision oldPackage),
                   MetaNamespace = KubeObjectNamespace (repoPackageRevision oldPackage),
                   MetaLabels = Labels newObj, MetaAnnotations = Annotations newObj\<rparr>\<rparr>,
           tr @ [OpenRepository repositoryObj,
                 MetadataStoreUpdate
                  \<lparr>MetaName = KubeObjectName (repoPackageRevision oldPackage),
                   MetaNamespace = KubeObjectNamespace (repoPackageRevision oldPackage),
                   MetaLabels = Labels newObj, MetaAnnotations = Annotations newObj\<rparr>]))"
  using assms
  by (simp add: UpdatePackageRevision_def metaOf_def Let_def split: sum.splits)

theorem UpdatePackageRevision_published_witness:
  "Lifecycle (Spec publishedObj) = PackageRevisionLifecyclePublished \<and>
   UpdatePackageRevision exampleLibrary exampleEngine [] exampleRepository examplePackage
       publishedObj relabelledObj None =
     (Inr \<lparr>repoPackageRevision = exampleRevision,
           packageRevisionMeta =
             \<lparr>MetaName = ''blueprints-0a1b'', MetaNamespace = ''default'',
              MetaLabels = [(''team'', ''core'')], MetaAnnotations = [(''owner'', ''alice'')]\<rparr>\<rparr>,
      [OpenRepository exampleRepository,
       MetadataStoreUpdate
         \<lparr>MetaName = ''blueprints-0a1b'', MetaNamespace = ''default'',
          MetaLabels = [(''team'', ''core'')], MetaAnnotations = [(''owner'', ''alice'')]\<rparr>])"
proof -
  have p: "Lifecycle (Spec publishedObj) = PackageRevisionLifecyclePublished"
    by (simp add: publishedObj_def)
  show ?thesis
    using p UpdatePackageRevision_published [OF p, of exampleLibrary exampleEngine "[]"
        exampleRepository examplePackage relabelledObj None]
    by (simp add: exampleEngine_def examplePackage_def exampleRevision_def relabelledObj_def)
qed

subsection \<open>The append path of an update\<close>

lemma UpdatePackageRevision_append_path:
  assumes "cacheOpenRepository cad tr repositoryObj = Inr repo"
    and "Lifecycle (Spec oldObj) \<in> {PackageRevisionLifecycleDraft, PackageRevisionLifecycleProposed}"
    and "Lifecycle (Spec newObj) \<in> {PackageRevisionLifecycleDraft,
           PackageRevisionLifecycleProposed, PackageRevisionLifecyclePublished}"
    and "\<not> isRecloneAndReplay oldObj newObj"
  shows "UpdatePackageRevision L cad tr repositoryObj oldPackage oldObj newObj parent =
     appendUpdate L cad (tr @ [OpenRepository repositoryObj]) repo repositoryObj oldPackage
       oldObj newObj"
  using assms by (auto simp: UpdatePackageRevision_def Let_def api_constants)

lemma appendUpdate_checks_fail:
  "appendedMutations repositoryObj oldObj newObj = Inl err \<Longrightarrow>
   appendUpdate L cad tr repo repositoryObj oldPackage oldObj newObj = (Inl err, tr)"
  by (simp add: appendUpdate_def)

lemma appendedMutations_shorter:
  "length (Tasks (Spec newObj)) < length (Tasks (Spec oldObj)) \<Longrightarrow>
   appendedMutations repositoryObj oldObj newObj =
     Inl (Errorf ''removing tasks is not yet supported'' [])"
  by (simp add: appendedMutations_def Let_def)

lemma appendedMutations_longer:
  "length (Tasks (Spec oldObj)) + 1 < length (Tasks (Spec newObj)) \<Longrightarrow>
   appendedMutations repositoryObj oldObj newObj =
     Inl (Errorf ''changing task types is not yet supported'' []) \<or>
   appendedMutations repositoryObj oldObj newObj =
     Inl (Errorf ''can only append one task at a time'' [])"
  by (simp add: appendedMutations_def Let_def)

lemma appendedMutations_mismatch:
  "i < length (Tasks (Spec oldObj)) \<Longrightarrow> i < length (Tasks (Spec newObj)) \<Longrightarrow>
   Type (Tasks (Spec oldObj) ! i) \<noteq> Type (Tasks (Spec newObj) ! i) \<Longrightarrow>
   appendedMutations repositoryObj oldObj newObj =
     Inl (Errorf ''removing tasks is not yet supported'' []) \<or>
   appendedMutations repositoryObj oldObj newObj =
     Inl (Errorf ''changing task types is not yet supported'' [])"
  by (auto simp: appendedMutations_def Let_def list_ex_iff)

lemma appendedMutations_one_appended:
  assumes "length (Tasks (Spec newObj)) = length (Tasks (Spec oldObj)) + 1"
    and "\<forall>i < length (Tasks (Spec oldObj)).
           Type (Tasks (Spec oldObj) ! i) = Type (Tasks (Spec newObj) ! i)"
  shows "(Type (last (Tasks (Spec newObj))) \<noteq> TaskTypeUpdate \<longrightarrow>
            appendedMutations repositoryObj oldObj newObj =
              Inl (Errorf ''appended task is type %q, must be type %q''
                     [S (Type (last (Tasks (Spec newObj)))), S TaskTypeUpdate])) \<and>
         (Type (last (Tasks (Spec newObj))) = TaskTypeUpdate \<and>
          Update (last (Tasks (Spec newObj))) = None \<longrightarrow>
            appendedMutations repositoryObj oldObj newObj =
              Inl (Errorf ''update not set for updateTask of type %q''
                     [S (Type (last (Tasks (Spec newObj))))]))"
proof -
  have ne: "Tasks (Spec newObj) \<noteq> []" using assms(1) by auto
  have l: "Tasks (Spec newObj) ! length (Tasks (Spec oldObj)) = last (Tasks (Spec newObj))"
    using assms(1) ne by (simp add: last_conv_nth)
  show ?thesis
    using assms l by (auto simp: appendedMutations_def Let_def list_ex_iff)
qed

text \<open>
  \<^bold>\<open>C3\<close> (append-only tasks). On the append path of \<^verbatim>\<open>UpdatePackageRevision\<close> (the repository
  opened, the old lifecycle Draft or Proposed, the new one valid, no reclone) the call
  fails, having called nothing but \<^verbatim>\<open>OpenRepository\<close>: with the removing-tasks error when
  the new task list is shorter than the old one; with the changing-types or the
  one-task-at-a-time error when it is longer by more than one; with the removing-tasks or
  the changing-types error when the types differ at an index both lists have; and, when
  exactly one task is appended to tasks of unchanged types, with the appended-task-type
  error when that task is not an Update task and with the update-not-set error when it is
  one without its Update payload.
\<close>

theorem UpdatePackageRevision_append_checks:
  assumes "cacheOpenRepository cad tr repositoryObj = Inr repo"
    and "Lifecycle (Spec oldObj) \<in> {PackageRevisionLifecycleDraft, PackageRevisionLifecycleProposed}"
    and "Lifecycle (Spec newObj) \<in> {PackageRevisionLifecycleDraft,
           PackageRevisionLifecycleProposed, PackageRevisionLifecyclePublished}"
    and "\<not> isRecloneAndReplay oldObj newObj"
  shows
   "(length (Tasks (Spec newObj)) < length (Tasks (Spec oldObj)) \<longrightarrow>
       UpdatePackageRevision L cad tr repositoryObj oldPackage oldObj newObj parent =
         (Inl (Errorf ''removing tasks is not yet supported'' []),
          tr @ [OpenRepository repositoryObj])) \<and>
    (length (Tasks (Spec oldObj)) + 1 < length (Tasks (Spec newObj)) \<longrightarrow>
       UpdatePackageRevision L cad tr repositoryObj oldPackage oldObj newObj parent =
         (Inl (Errorf ''changing task types is not yet supported'' []),
          tr @ [OpenRepository repositoryObj]) \<or>
       UpdatePackageRevision L cad tr repositoryObj oldPackage oldObj newObj parent =
         (Inl (Errorf ''can only append one task at a time'' []),
          tr @ [OpenRepository repositoryObj])) \<and>
    ((\<exists>i. i < length (Tasks (Spec oldObj)) \<and> i < length (Tasks (Spec newObj)) \<and>
          Type (Tasks (Spec oldObj) ! i) \<noteq> Type (Tasks (Spec newObj) ! i)) \<longrightarrow>
       UpdatePackageRevision L cad tr repositoryObj oldPackage oldObj newObj parent =
         (Inl (Errorf ''removing tasks is not yet supported'' []),
          tr @ [OpenRepository repositoryObj]) \<or>
       UpdatePackageRevision L cad tr repositoryObj oldPackage oldObj newObj parent =
         (Inl (Errorf ''changing task types is not yet supported'' []),
          tr @ [OpenRepository repositoryObj])) \<and>
    (length (Tasks (Spec newObj)) = length (Tasks (Spec oldObj)) + 1 \<and>
     (\<forall>i < length (Tasks (Spec oldObj)).
          Type (Tasks (Spec oldObj) ! i) = Type (Tasks (Spec newObj) ! i)) \<longrightarrow>
       (Type (last (Tasks (Spec newObj))) \<noteq> TaskTypeUpdate \<longrightarrow>
          UpdatePackageRevision L cad tr repositoryObj oldPackage oldObj newObj parent =
            (Inl (Errorf ''appended task is type %q, must be type %q''
                    [S (Type (last (Tasks (Spec newObj)))), S TaskTypeUpdate]),
             tr @ [OpenRepository repositoryObj])) \<and>
       (Type (last (Tasks (Spec newObj))) = TaskTypeUpdate \<and>
        Update (last (Tasks (Spec newObj))) = None \<longrightarrow>
          UpdatePackageRevision L cad tr repositoryObj oldPackage oldObj newObj parent =
            (Inl (Errorf ''update not set for updateTask of type %q''
                    [S (Type (last (Tasks (Spec newObj))))]),
             tr @ [OpenRepository repositoryObj])))"
proof -
  note path = UpdatePackageRevision_append_path [OF assms, of L oldPackage parent]
  show ?thesis
  proof (intro conjI impI)
    assume "length (Tasks (Spec newObj)) < length (Tasks (Spec oldObj))"
    from appendedMutations_shorter [OF this, of repositoryObj]
    show "UpdatePackageRevision L cad tr repositoryObj oldPackage oldObj newObj parent =
         (Inl (Errorf ''removing tasks is not yet supported'' []),
          tr @ [OpenRepository repositoryObj])"
      by (simp add: path appendUpdate_checks_fail)
  next
    assume "length (Tasks (Spec oldObj)) + 1 < length (Tasks (Spec newObj))"
    from appendedMutations_longer [OF this, of repositoryObj]
    show "UpdatePackageRevision L cad tr repositoryObj oldPackage oldObj newObj parent =
         (Inl (Errorf ''changing task types is not yet supported'' []),
          tr @ [OpenRepository repositoryObj]) \<or>
       UpdatePackageRevision L cad tr repositoryObj oldPackage oldObj newObj parent =
         (Inl (Errorf ''can only append one task at a time'' []),
          tr @ [OpenRepository repositoryObj])"
      by (auto simp: path appendUpdate_checks_fail)
  next
    assume "\<exists>i. i < length (Tasks (Spec oldObj)) \<and> i < length (Tasks (Spec newObj)) \<and>
          Type (Tasks (Spec oldObj) ! i) \<noteq> Type (Tasks (Spec newObj) ! i)"
    then obtain i where "i < length (Tasks (Spec oldObj))" "i < length (Tasks (Spec newObj))"
      "Type (Tasks (Spec oldObj) ! i) \<noteq> Type (Tasks (Spec newObj) ! i)" by blast
    from appendedMutations_mismatch [OF this, of repositoryObj]
    show "UpdatePackageRevision L cad tr repositoryObj oldPackage oldObj newObj parent =
         (Inl (Errorf ''removing tasks is not yet supported'' []),
          tr @ [OpenRepository repositoryObj]) \<or>
       UpdatePackageRevision L cad tr repositoryObj oldPackage oldObj newObj parent =
         (Inl (Errorf ''changing task types is not yet supported'' []),
          tr @ [OpenRepository repositoryObj])"
      by (auto simp: path appendUpdate_checks_fail)
  next
    assume a: "length (Tasks (Spec newObj)) = length (Tasks (Spec oldObj)) + 1 \<and>
     (\<forall>i < length (Tasks (Spec oldObj)).
          Type (Tasks (Spec oldObj) ! i) = Type (Tasks (Spec newObj) ! i))"
    assume "Type (last (Tasks (Spec newObj))) \<noteq> TaskTypeUpdate"
    with appendedMutations_one_appended [of newObj oldObj repositoryObj] a
    show "UpdatePackageRevision L cad tr repositoryObj oldPackage oldObj newObj parent =
            (Inl (Errorf ''appended task is type %q, must be type %q''
                    [S (Type (last (Tasks (Spec newObj)))), S TaskTypeUpdate]),
             tr @ [OpenRepository repositoryObj])"
      by (simp add: path appendUpdate_checks_fail)
  next
    assume a: "length (Tasks (Spec newObj)) = length (Tasks (Spec oldObj)) + 1 \<and>
     (\<forall>i < length (Tasks (Spec oldObj)).
          Type (Tasks (Spec oldObj) ! i) = Type (Tasks (Spec newObj) ! i))"
    assume "Type (last (Tasks (Spec newObj))) = TaskTypeUpdate \<and>
        Update (last (Tasks (Spec newObj))) = None"
    with appendedMutations_one_appended [of newObj oldObj repositoryObj] a
    show "UpdatePackageRevision L cad tr repositoryObj oldPackage oldObj newObj parent =
            (Inl (Errorf ''update not set for updateTask of type %q''
                    [S (Type (last (Tasks (Spec newObj))))]),
             tr @ [OpenRepository repositoryObj])"
      by (simp add: path appendUpdate_checks_fail)
  qed
qed

theorem UpdatePackageRevision_append_checks_witness:
  "UpdatePackageRevision exampleLibrary exampleEngine [] exampleRepository examplePackage
       (draftObj [cloneTask ''base-v1'', patchTask]) (draftObj [cloneTask ''base-v1'']) None =
     (Inl (Errorf ''removing tasks is not yet supported'' []),
      [OpenRepository exampleRepository]) \<and>
   UpdatePackageRevision exampleLibrary exampleEngine [] exampleRepository examplePackage
       (draftObj [cloneTask ''base-v1'', patchTask])
       (draftObj [cloneTask ''base-v1'', patchTask, evalTask, evalTask]) None =
     (Inl (Errorf ''can only append one task at a time'' []),
      [OpenRepository exampleRepository]) \<and>
   UpdatePackageRevision exampleLibrary exampleEngine [] exampleRepository examplePackage
       (draftObj [cloneTask ''base-v1'', patchTask])
       (draftObj [cloneTask ''base-v1'', evalTask]) None =
     (Inl (Errorf ''changing task types is not yet supported'' []),
      [OpenRepository exampleRepository]) \<and>
   UpdatePackageRevision exampleLibrary exampleEngine [] exampleRepository examplePackage
       (draftObj [cloneTask ''base-v1'', patchTask])
       (draftObj [cloneTask ''base-v1'', patchTask, evalTask]) None =
     (Inl (Errorf ''appended task is type %q, must be type %q''
             [S TaskTypeEval, S TaskTypeUpdate]),
      [OpenRepository exampleRepository]) \<and>
   UpdatePackageRevision exampleLibrary exampleEngine [] exampleRepository examplePackage
       (draftObj [cloneTask ''base-v1'', patchTask])
       (draftObj [cloneTask ''base-v1'', patchTask, emptyTask\<lparr>Type := TaskTypeUpdate\<rparr>]) None =
     (Inl (Errorf ''update not set for updateTask of type %q'' [S TaskTypeUpdate]),
      [OpenRepository exampleRepository])"
proof -
  let ?old = "draftObj [cloneTask ''base-v1'', patchTask]"
  let ?short = "draftObj [cloneTask ''base-v1'']"
  let ?long = "draftObj [cloneTask ''base-v1'', patchTask, evalTask, evalTask]"
  let ?other = "draftObj [cloneTask ''base-v1'', evalTask]"
  let ?eval = "draftObj [cloneTask ''base-v1'', patchTask, evalTask]"
  let ?bare = "draftObj [cloneTask ''base-v1'', patchTask, emptyTask\<lparr>Type := TaskTypeUpdate\<rparr>]"
  have o: "cacheOpenRepository exampleEngine [] exampleRepository = Inr 7"
    by (simp add: exampleEngine_def)
  have lo: "Lifecycle (Spec (draftObj ts)) \<in>
      {PackageRevisionLifecycleDraft, PackageRevisionLifecycleProposed}" for ts
    by (simp add: draftObj_def)
  have ln: "Lifecycle (Spec (draftObj ts)) \<in> {PackageRevisionLifecycleDraft,
      PackageRevisionLifecycleProposed, PackageRevisionLifecyclePublished}" for ts
    by (simp add: draftObj_def)
  have n: "\<not> isRecloneAndReplay ?old (draftObj (cloneTask ''base-v1'' # ts))" for ts
    by (simp add: isRecloneAndReplay_def draftObj_def Let_def)
  note checks = UpdatePackageRevision_append_checks [where L = exampleLibrary
      and oldPackage = examplePackage and parent = None, OF o lo ln]
  have s1: "length (Tasks (Spec ?short)) < length (Tasks (Spec ?old))"
    by (simp add: draftObj_def)
  from checks [OF n [of "[]"]] s1
  have 1: "UpdatePackageRevision exampleLibrary exampleEngine [] exampleRepository
       examplePackage ?old ?short None =
     (Inl (Errorf ''removing tasks is not yet supported'' []),
      [] @ [OpenRepository exampleRepository])" by blast
  have s2: "length (Tasks (Spec ?old)) + 1 < length (Tasks (Spec ?long))"
    by (simp add: draftObj_def)
  from checks [OF n [of "[patchTask, evalTask, evalTask]"]] s2
  have "UpdatePackageRevision exampleLibrary exampleEngine [] exampleRepository
       examplePackage ?old ?long None =
         (Inl (Errorf ''changing task types is not yet supported'' []),
          [] @ [OpenRepository exampleRepository]) \<or>
       UpdatePackageRevision exampleLibrary exampleEngine [] exampleRepository
       examplePackage ?old ?long None =
         (Inl (Errorf ''can only append one task at a time'' []),
          [] @ [OpenRepository exampleRepository])" by blast
  moreover have "UpdatePackageRevision exampleLibrary exampleEngine [] exampleRepository
       examplePackage ?old ?long None \<noteq>
         (Inl (Errorf ''changing task types is not yet supported'' []),
          [] @ [OpenRepository exampleRepository])"
    unfolding UpdatePackageRevision_append_path
        [OF o lo ln n [of "[patchTask, evalTask, evalTask]"]]
    by (simp add: appendUpdate_def appendedMutations_def draftObj_def Let_def)
  ultimately have 2: "UpdatePackageRevision exampleLibrary exampleEngine [] exampleRepository
       examplePackage ?old ?long None =
         (Inl (Errorf ''can only append one task at a time'' []),
          [] @ [OpenRepository exampleRepository])" by blast
  have s3: "\<exists>i. i < length (Tasks (Spec ?old)) \<and> i < length (Tasks (Spec ?other)) \<and>
          Type (Tasks (Spec ?old) ! i) \<noteq> Type (Tasks (Spec ?other) ! i)"
    by (intro exI [of _ 1])
       (simp add: draftObj_def patchTask_def evalTask_def api_constants)
  from checks [OF n [of "[evalTask]"]] s3
  have "UpdatePackageRevision exampleLibrary exampleEngine [] exampleRepository
       examplePackage ?old ?other None =
         (Inl (Errorf ''removing tasks is not yet supported'' []),
          [] @ [OpenRepository exampleRepository]) \<or>
       UpdatePackageRevision exampleLibrary exampleEngine [] exampleRepository
       examplePackage ?old ?other None =
         (Inl (Errorf ''changing task types is not yet supported'' []),
          [] @ [OpenRepository exampleRepository])" by blast
  moreover have "UpdatePackageRevision exampleLibrary exampleEngine [] exampleRepository
       examplePackage ?old ?other None \<noteq>
         (Inl (Errorf ''removing tasks is not yet supported'' []),
          [] @ [OpenRepository exampleRepository])"
    unfolding UpdatePackageRevision_append_path [OF o lo ln n [of "[evalTask]"]]
    by (simp add: appendUpdate_def appendedMutations_def draftObj_def patchTask_def
        evalTask_def api_constants Let_def)
  ultimately have 3: "UpdatePackageRevision exampleLibrary exampleEngine [] exampleRepository
       examplePackage ?old ?other None =
         (Inl (Errorf ''changing task types is not yet supported'' []),
          [] @ [OpenRepository exampleRepository])" by blast
  have s4: "length (Tasks (Spec ?eval)) = length (Tasks (Spec ?old)) + 1 \<and>
     (\<forall>i < length (Tasks (Spec ?old)).
          Type (Tasks (Spec ?old) ! i) = Type (Tasks (Spec ?eval) ! i))"
    by (auto simp: draftObj_def less_Suc_eq)
  have t4: "Type (last (Tasks (Spec ?eval))) \<noteq> TaskTypeUpdate"
    "Type (last (Tasks (Spec ?eval))) = TaskTypeEval"
    by (simp_all add: draftObj_def evalTask_def api_constants)
  from checks [OF n [of "[patchTask, evalTask]"]] s4 t4(1)
  have "UpdatePackageRevision exampleLibrary exampleEngine [] exampleRepository
       examplePackage ?old ?eval None =
     (Inl (Errorf ''appended task is type %q, must be type %q''
             [S (Type (last (Tasks (Spec ?eval)))), S TaskTypeUpdate]),
      [] @ [OpenRepository exampleRepository])" by blast
  with t4(2) have 4: "UpdatePackageRevision exampleLibrary exampleEngine [] exampleRepository
       examplePackage ?old ?eval None =
     (Inl (Errorf ''appended task is type %q, must be type %q''
             [S TaskTypeEval, S TaskTypeUpdate]),
      [] @ [OpenRepository exampleRepository])" by simp
  have s5: "length (Tasks (Spec ?bare)) = length (Tasks (Spec ?old)) + 1 \<and>
     (\<forall>i < length (Tasks (Spec ?old)).
          Type (Tasks (Spec ?old) ! i) = Type (Tasks (Spec ?bare) ! i))"
    by (auto simp: draftObj_def less_Suc_eq)
  have t5: "Type (last (Tasks (Spec ?bare))) = TaskTypeUpdate \<and>
        Update (last (Tasks (Spec ?bare))) = None"
    by (simp add: draftObj_def emptyTask_def)
  from checks [OF n [of "[patchTask, emptyTask\<lparr>Type := TaskTypeUpdate\<rparr>]"]] s5 t5
  have "UpdatePackageRevision exampleLibrary exampleEngine [] exampleRepository
       examplePackage ?old ?bare None =
     (Inl (Errorf ''update not set for updateTask of type %q''
             [S (Type (last (Tasks (Spec ?bare))))]),
      [] @ [OpenRepository exampleRepository])" by blast
  with t5 have 5: "UpdatePackageRevision exampleLibrary exampleEngine [] exampleRepository
       examplePackage ?old ?bare None =
     (Inl (Errorf ''update not set for updateTask of type %q'' [S TaskTypeUpdate]),
      [] @ [OpenRepository exampleRepository])" by simp
  from 1 2 3 4 5 show ?thesis by simp
qed

subsection \<open>Reclone and replay\<close>

lemma createdDrafts_Cons:
  "createdDrafts [] = []"
  "createdDrafts (c # cs) =
     (case c of RepoCreatePackageRevision repo obj \<Rightarrow> [obj] | _ \<Rightarrow> []) @ createdDrafts cs"
  by (simp_all add: createdDrafts_def)

lemma reopenedDrafts_Cons:
  "reopenedDrafts [] = []"
  "reopenedDrafts (c # cs) =
     (case c of RepoUpdatePackageRevision repo pkgRev \<Rightarrow> [pkgRev] | _ \<Rightarrow> [])
       @ reopenedDrafts cs"
  by (simp_all add: reopenedDrafts_def)

lemma metadataCalls_Cons:
  "metadataCalls [] = []"
  "metadataCalls (MutationApply m r # cs) = metadataCalls cs"
  "metadataCalls (DraftUpdateResources d res t # cs) = metadataCalls cs"
  by (simp_all add: metadataCalls_def)

lemma chainCalls_others:
  "chainCalls draft ms calls \<Longrightarrow>
   createdDrafts calls = [] \<and> reopenedDrafts calls = [] \<and> metadataCalls calls = []"
  by (induction draft ms calls rule: chainCalls.induct)
     (auto simp: createdDrafts_Cons reopenedDrafts_Cons metadataCalls_Cons
           split: list.splits call.splits)

lemma recloneAndReplay_calls:
  assumes "recloneAndReplay L cad tr repo repositoryObj newObj packageConfig = (Inr pkgRev, tr')"
  shows "\<exists>draft M calls.
     mapTasks L newObj (Deployment repositoryObj) packageConfig (Tasks (Spec newObj))
       (initialMutations newObj) = Inr M \<and>
     chainCalls draft (conditionalAddRender M) calls \<and>
     tr' = tr @ [RepoCreatePackageRevision repo newObj] @ calls @
       [DraftUpdateLifecycle draft (Lifecycle (Spec newObj)), DraftClose draft]"
proof -
  from assms obtain draft tr2 where
    ap: "applyTasks L cad (tr @ [RepoCreatePackageRevision repo newObj]) draft repositoryObj
           newObj packageConfig = (None, tr2)"
    and tr': "tr' = tr2 @ [DraftUpdateLifecycle draft (Lifecycle (Spec newObj)), DraftClose draft]"
    unfolding recloneAndReplay_def
    by (auto simp: Let_def split: sum.splits option.splits prod.splits)
  from applyTasks_calls [OF ap] obtain M calls where
    "mapTasks L newObj (Deployment repositoryObj) packageConfig (Tasks (Spec newObj))
       (initialMutations newObj) = Inr M"
    "tr2 = (tr @ [RepoCreatePackageRevision repo newObj]) @ calls"
    "chainCalls draft (conditionalAddRender M) calls" by blast
  with tr' show ?thesis by auto
qed

lemma appendUpdate_calls:
  assumes "appendUpdate L cad tr repo repositoryObj oldPackage oldObj newObj = (Inr pr, tr')"
  shows "\<exists>draft ms calls.
     chainCalls draft ms calls \<and>
     tr' = tr @ [RepoUpdatePackageRevision repo (repoPackageRevision oldPackage)] @ calls @
       [DraftUpdateLifecycle draft (Lifecycle (Spec newObj)), DraftClose draft,
        MetadataStoreUpdate (metaOf (repoPackageRevision pr) newObj)] \<and>
     packageRevisionMeta pr = metaOf (repoPackageRevision pr) newObj"
proof -
  let ?tr1 = "tr @ [RepoUpdatePackageRevision repo (repoPackageRevision oldPackage)]"
  define step where "step draft mutations3 =
      (if Lifecycle (Spec oldObj) = PackageRevisionLifecycleDraft
       then (case GetResources oldPackage of
               Inl err \<Rightarrow> (Some (Errorf ''cannot get package resources: %w'' [E err]), ?tr1)
             | Inr apiResources \<Rightarrow>
                 applyResourceMutations L cad ?tr1 draft (SpecResources apiResources)
                   mutations3)
       else (None, ?tr1))" for draft mutations3
  note run = assms [unfolded appendUpdate_def Let_def, folded step_def]
  from run obtain draft mutations3 tr2 where
    st: "step draft mutations3 = (None, tr2)"
    and tr': "tr' = tr2 @ [DraftUpdateLifecycle draft (Lifecycle (Spec newObj)), DraftClose draft,
        MetadataStoreUpdate (metaOf (repoPackageRevision pr) newObj)]"
    and meta: "packageRevisionMeta pr = metaOf (repoPackageRevision pr) newObj"
    by (auto simp: Let_def split: sum.splits option.splits prod.splits)
  have pipe: "(\<exists>apiResources :: PackageRevisionResources.
              applyResourceMutations L cad ?tr1 draft (SpecResources apiResources) mutations3
                = (None, tr2)) \<or> tr2 = ?tr1"
  proof (cases "Lifecycle (Spec oldObj) = PackageRevisionLifecycleDraft")
    case True
    with st obtain apiResources :: PackageRevisionResources where
      "applyResourceMutations L cad ?tr1 draft (SpecResources apiResources) mutations3
         = (None, tr2)"
      by (cases "GetResources oldPackage") (auto simp: step_def)
    then show ?thesis by blast
  next
    case False
    with st show ?thesis by (simp add: step_def)
  qed
  have "\<exists>ms calls. chainCalls draft ms calls \<and> tr2 = ?tr1 @ calls"
    using pipe
  proof
    assume "\<exists>apiResources :: PackageRevisionResources.
              applyResourceMutations L cad ?tr1 draft (SpecResources apiResources) mutations3
                = (None, tr2)"
    then obtain apiResources :: PackageRevisionResources where
      "applyResourceMutations L cad ?tr1 draft (SpecResources apiResources) mutations3
         = (None, tr2)" by blast
    from applyResourceMutations_calls [OF this] show ?thesis by blast
  next
    assume "tr2 = ?tr1"
    then show ?thesis by (intro exI [of _ "[]"]) simp
  qed
  with tr' meta show ?thesis by auto
qed


lemma UpdatePackageRevision_reclone_path:
  assumes "cacheOpenRepository cad tr repositoryObj = Inr repo"
    and "Lifecycle (Spec oldObj) \<in> {PackageRevisionLifecycleDraft, PackageRevisionLifecycleProposed}"
    and "Lifecycle (Spec newObj) \<in> {PackageRevisionLifecycleDraft,
           PackageRevisionLifecycleProposed, PackageRevisionLifecyclePublished}"
    and "isRecloneAndReplay oldObj newObj"
    and "UpdatePackageRevision L cad tr repositoryObj oldPackage oldObj newObj parent = (Inr pr, tr')"
  shows "\<exists>packageConfig.
     buildPackageConfig L newObj parent = Inr packageConfig \<and>
     recloneAndReplay L cad (tr @ [OpenRepository repositoryObj]) repo repositoryObj newObj
       packageConfig = (Inr (repoPackageRevision pr), tr') \<and>
     packageRevisionMeta pr = emptyMeta"
  using assms
  by (auto simp: UpdatePackageRevision_def Let_def api_constants
           split: sum.splits prod.splits)

lemma UpdatePackageRevision_reclone_calls:
  assumes "cacheOpenRepository cad tr repositoryObj = Inr repo"
    and "Lifecycle (Spec oldObj) \<in> {PackageRevisionLifecycleDraft, PackageRevisionLifecycleProposed}"
    and "Lifecycle (Spec newObj) \<in> {PackageRevisionLifecycleDraft,
           PackageRevisionLifecycleProposed, PackageRevisionLifecyclePublished}"
    and "isRecloneAndReplay oldObj newObj"
    and "UpdatePackageRevision L cad tr repositoryObj oldPackage oldObj newObj parent = (Inr pr, tr')"
  shows "\<exists>packageConfig draft ms calls.
     buildPackageConfig L newObj parent = Inr packageConfig \<and>
     list_all2 (\<lambda>task m. mapTaskToMutation L newObj task (Deployment repositoryObj)
                  packageConfig = Inr m) (Tasks (Spec newObj)) ms \<and>
     chainCalls draft (conditionalAddRender ms) calls \<and>
     drop (length tr) tr' = [OpenRepository repositoryObj, RepoCreatePackageRevision repo newObj]
       @ calls @ [DraftUpdateLifecycle draft (Lifecycle (Spec newObj)), DraftClose draft] \<and>
     packageRevisionMeta pr = emptyMeta"
proof -
  from UpdatePackageRevision_reclone_path [OF assms] obtain packageConfig where
    cfg: "buildPackageConfig L newObj parent = Inr packageConfig"
    and rr: "recloneAndReplay L cad (tr @ [OpenRepository repositoryObj]) repo repositoryObj
       newObj packageConfig = (Inr (repoPackageRevision pr), tr')"
    and meta: "packageRevisionMeta pr = emptyMeta" by blast
  from recloneAndReplay_calls [OF rr] obtain draft M calls where
    M: "mapTasks L newObj (Deployment repositoryObj) packageConfig (Tasks (Spec newObj))
       (initialMutations newObj) = Inr M"
    and ch: "chainCalls draft (conditionalAddRender M) calls"
    and tr': "tr' = (tr @ [OpenRepository repositoryObj]) @
       [RepoCreatePackageRevision repo newObj] @ calls @
       [DraftUpdateLifecycle draft (Lifecycle (Spec newObj)), DraftClose draft]" by blast
  have "initialMutations newObj = []"
    using assms(4) by (auto simp: isRecloneAndReplay_def initialMutations_def Let_def
        split: if_splits)
  with mapTasks_mapped [OF M] obtain ms where
    "M = ms" "list_all2 (\<lambda>task m. mapTaskToMutation L newObj task (Deployment repositoryObj)
                  packageConfig = Inr m) (Tasks (Spec newObj)) ms" by auto
  with cfg ch tr' meta show ?thesis by auto
qed

lemma exampleReclone_run:
  "UpdatePackageRevision exampleLibrary exampleEngine [] exampleRepository examplePackage
     (draftObj [cloneTask ''base-v1'', patchTask]) (draftObj [cloneTask ''base-v2'', patchTask])
     None =
   (Inr \<lparr>repoPackageRevision = exampleRevision, packageRevisionMeta = emptyMeta\<rparr>,
    exampleRecloneCalls)"
  by (simp add: UpdatePackageRevision_def isRecloneAndReplay_def buildPackageConfig_def
      packagePathOf_def recloneAndReplay_def applyTasks_def initialMutations_def
      mapTaskToMutation_def conditionalAddRender_def Apply_def exampleEngine_def
      exampleLibrary_def exampleRepository_def draftObj_def cloneTask_def patchTask_def
      emptyTask_def auditTask_def exampleRecloneCalls_def api_constants Let_def)

lemma exampleAppend_run:
  "UpdatePackageRevision exampleLibrary exampleEngine [] exampleRepository examplePackage
     (draftObj [cloneTask ''base-v1'', patchTask]) (draftObj [cloneTask ''base-v1'', patchTask])
     None =
   (Inr \<lparr>repoPackageRevision = exampleRevision,
         packageRevisionMeta = metaOf exampleRevision (draftObj [cloneTask ''base-v1'', patchTask])\<rparr>,
    exampleAppendCalls)"
  by (simp add: UpdatePackageRevision_def isRecloneAndReplay_def appendUpdate_def
      appendedMutations_def createKptfilePatchTask_def GetResources_def
      conditionalAddRender_def Apply_def exampleEngine_def examplePackage_def
      exampleLibrary_def exampleRepository_def exampleRevision_def draftObj_def cloneTask_def
      patchTask_def emptyTask_def auditTask_def exampleAppendCalls_def metaOf_def
      api_constants Let_def)



subsection \<open>The metadata record\<close>

text \<open>The operations that do write the record: a creation registers it after closing the
  draft, an update on the append path updates it after closing the draft and returns it, a
  deletion deletes it after deleting the revision.\<close>

text \<open>
  \<^bold>\<open>X1\<close> (a creation registers the record). A successful \<^verbatim>\<open>CreatePackageRevision\<close> makes
  one call on the metadata store: \<^verbatim>\<open>Create\<close>, with the name and namespace of the closed
  revision and the labels and annotations of the request.
\<close>

theorem CreatePackageRevision_registers_metadata:
  assumes "CreatePackageRevision L cad tr repositoryObj obj0 parent = (Inr pr, tr')"
  shows "\<exists>obj. checkCreateLifecycle obj0 = Inr obj \<and>
     metadataCalls (drop (length tr) tr') =
       [MetadataStoreCreate (metaOf (repoPackageRevision pr) obj) repositoryObj]"
proof -
  from CreatePackageRevision_calls [OF assms] obtain obj repo draft M calls where
    lc: "checkCreateLifecycle obj0 = Inr obj"
    and ch: "chainCalls draft (conditionalAddRender M) calls"
    and tr': "tr' = tr @ [OpenRepository repositoryObj, RepoCreatePackageRevision repo obj] @
       calls @ [DraftUpdateLifecycle draft (Lifecycle (Spec obj)), DraftClose draft,
        MetadataStoreCreate (metaOf (repoPackageRevision pr) obj) repositoryObj]"
    by blast
  from chainCalls_others [OF ch] lc show ?thesis
    by (simp add: tr' metadataCalls_def)
qed

theorem CreatePackageRevision_registers_metadata_witness:
  "metadataCalls (drop (length ([] :: call list)) exampleCreateCalls) =
     [MetadataStoreCreate
        \<lparr>MetaName = ''blueprints-0a1b'', MetaNamespace = ''default'',
         MetaLabels = [(''team'', ''net'')], MetaAnnotations = []\<rparr> exampleRepository]"
proof -
  from CreatePackageRevision_registers_metadata [OF exampleCreate_run]
  obtain obj where "checkCreateLifecycle exampleObj = Inr obj"
    and m: "metadataCalls (drop (length ([] :: call list)) exampleCreateCalls) =
       [MetadataStoreCreate (metaOf exampleRevision obj) exampleRepository]" by auto
  then have "Labels obj = [(''team'', ''net'')]" "Annotations obj = []"
    by (auto simp: checkCreateLifecycle_def exampleObj_def Let_def split: if_splits)
  with m show ?thesis by (simp add: metaOf_def exampleRevision_def)
qed

lemma appendUpdate_metadata:
  assumes "appendUpdate L cad tr repo repositoryObj oldPackage oldObj newObj = (Inr pr, tr')"
  shows "\<exists>calls. tr' = tr @ calls \<and>
           metadataCalls calls =
             [MetadataStoreUpdate (metaOf (repoPackageRevision pr) newObj)] \<and>
           packageRevisionMeta pr = metaOf (repoPackageRevision pr) newObj"
proof -
  from appendUpdate_calls [OF assms] obtain draft ms calls where
    ch: "chainCalls draft ms calls"
    and tr': "tr' = tr @ [RepoUpdatePackageRevision repo (repoPackageRevision oldPackage)] @
       calls @ [DraftUpdateLifecycle draft (Lifecycle (Spec newObj)), DraftClose draft,
        MetadataStoreUpdate (metaOf (repoPackageRevision pr) newObj)]"
    and meta: "packageRevisionMeta pr = metaOf (repoPackageRevision pr) newObj" by blast
  from chainCalls_others [OF ch] meta tr' show ?thesis
    by (intro exI [of _ "[RepoUpdatePackageRevision repo (repoPackageRevision oldPackage)] @
       calls @ [DraftUpdateLifecycle draft (Lifecycle (Spec newObj)), DraftClose draft,
        MetadataStoreUpdate (metaOf (repoPackageRevision pr) newObj)]"])
       (simp add: metadataCalls_def)
qed

text \<open>
  \<^bold>\<open>X2\<close> (the append path updates the record). A successful \<^verbatim>\<open>UpdatePackageRevision\<close> on
  the append path makes one call on the metadata store: \<^verbatim>\<open>Update\<close>, with the name and
  namespace of the closed revision and the labels and annotations of the new object, and
  returns the revision with that record.
\<close>

theorem UpdatePackageRevision_append_metadata:
  assumes "cacheOpenRepository cad tr repositoryObj = Inr repo"
    and "Lifecycle (Spec oldObj) \<in> {PackageRevisionLifecycleDraft, PackageRevisionLifecycleProposed}"
    and "Lifecycle (Spec newObj) \<in> {PackageRevisionLifecycleDraft,
           PackageRevisionLifecycleProposed, PackageRevisionLifecyclePublished}"
    and "\<not> isRecloneAndReplay oldObj newObj"
    and "UpdatePackageRevision L cad tr repositoryObj oldPackage oldObj newObj parent = (Inr pr, tr')"
  shows "metadataCalls (drop (length tr) tr') =
           [MetadataStoreUpdate (metaOf (repoPackageRevision pr) newObj)] \<and>
         packageRevisionMeta pr = metaOf (repoPackageRevision pr) newObj"
proof -
  from UpdatePackageRevision_append_path [OF assms(1-4), of L oldPackage parent] assms(5)
  have "appendUpdate L cad (tr @ [OpenRepository repositoryObj]) repo repositoryObj oldPackage
       oldObj newObj = (Inr pr, tr')" by simp
  from appendUpdate_metadata [OF this] obtain calls where
    "tr' = (tr @ [OpenRepository repositoryObj]) @ calls"
    "metadataCalls calls = [MetadataStoreUpdate (metaOf (repoPackageRevision pr) newObj)]"
    "packageRevisionMeta pr = metaOf (repoPackageRevision pr) newObj" by blast
  then show ?thesis by (simp add: metadataCalls_def)
qed

theorem UpdatePackageRevision_append_metadata_witness:
  "metadataCalls (drop (length ([] :: call list)) exampleAppendCalls) =
     [MetadataStoreUpdate
        \<lparr>MetaName = ''blueprints-0a1b'', MetaNamespace = ''default'',
         MetaLabels = [(''team'', ''core'')], MetaAnnotations = []\<rparr>]"
proof -
  let ?obj = "draftObj [cloneTask ''base-v1'', patchTask]"
  have o: "cacheOpenRepository exampleEngine [] exampleRepository = Inr 7"
    by (simp add: exampleEngine_def)
  have lo: "Lifecycle (Spec ?obj) \<in>
      {PackageRevisionLifecycleDraft, PackageRevisionLifecycleProposed}"
    by (simp add: draftObj_def)
  have ln: "Lifecycle (Spec ?obj) \<in> {PackageRevisionLifecycleDraft,
      PackageRevisionLifecycleProposed, PackageRevisionLifecyclePublished}"
    by (simp add: draftObj_def)
  have n: "\<not> isRecloneAndReplay ?obj ?obj"
    by (simp add: isRecloneAndReplay_def Let_def)
  from UpdatePackageRevision_append_metadata [OF o lo ln n exampleAppend_run]
  show ?thesis by (simp add: metaOf_def exampleRevision_def draftObj_def)
qed

lemma exampleDelete_run:
  "DeletePackageRevision exampleEngine [] exampleRepository examplePackage =
     (None, exampleDeleteCalls)"
  by (simp add: DeletePackageRevision_def exampleEngine_def examplePackage_def
      exampleRevision_def exampleDeleteCalls_def Let_def)

text \<open>
  \<^bold>\<open>X3\<close> (a deletion deletes the record last). A successful \<^verbatim>\<open>DeletePackageRevision\<close>
  opens the repository, deletes the revision there, and then deletes the metadata record
  of the revision's name and namespace; it makes no other call.
\<close>

theorem DeletePackageRevision_deletes_metadata:
  assumes "DeletePackageRevision cad tr repositoryObj oldPackage = (None, tr')"
  shows "\<exists>repo. drop (length tr) tr' =
     [OpenRepository repositoryObj,
      RepoDeletePackageRevision repo (repoPackageRevision oldPackage),
      MetadataStoreDelete (KubeObjectName (repoPackageRevision oldPackage))
        (KubeObjectNamespace (repoPackageRevision oldPackage))]"
  using assms
  by (auto simp: DeletePackageRevision_def Let_def split: sum.splits option.splits)

theorem DeletePackageRevision_deletes_metadata_witness:
  "DeletePackageRevision exampleEngine [] exampleRepository examplePackage =
     (None, exampleDeleteCalls) \<and>
   metadataCalls (drop (length ([] :: call list)) exampleDeleteCalls) =
     [MetadataStoreDelete ''blueprints-0a1b'' ''default'']"
proof -
  from DeletePackageRevision_deletes_metadata [OF exampleDelete_run]
  obtain repo where e: "drop (length ([] :: call list)) exampleDeleteCalls =
     [OpenRepository exampleRepository,
      RepoDeletePackageRevision repo (repoPackageRevision examplePackage),
      MetadataStoreDelete (KubeObjectName (repoPackageRevision examplePackage))
        (KubeObjectNamespace (repoPackageRevision examplePackage))]" by blast
  have "metadataCalls (drop (length ([] :: call list)) exampleDeleteCalls) =
     [MetadataStoreDelete ''blueprints-0a1b'' ''default'']"
    unfolding e by (simp add: metadataCalls_def examplePackage_def exampleRevision_def)
  with exampleDelete_run show ?thesis by blast
qed

text \<open>\<^verbatim>\<open>UpdatePackageResources\<close> writes no record either, and returns the empty one.\<close>

lemma UpdatePackageResources_no_metadata:
  assumes "UpdatePackageResources L cad tr repositoryObj oldPackage old new = (Inr pr, tr')"
  shows "packageRevisionMeta pr = emptyMeta"
  using assms
  by (auto simp: UpdatePackageResources_def Let_def
           split: sum.splits option.splits prod.splits if_splits)

text \<open>
  \<^bold>\<open>C10\<close> (metadata record on every mutating operation). The reclone path does not do it:
  whenever \<^verbatim>\<open>UpdatePackageRevision\<close> takes the reclone path and succeeds, it has made no call
  on the metadata store, and the revision it returns carries the empty metadata record
  (no name, no labels, no annotations) whatever labels the new object has.
\<close>

theorem UpdatePackageRevision_reclone_no_metadata:
  assumes "cacheOpenRepository cad tr repositoryObj = Inr repo"
    and "Lifecycle (Spec oldObj) \<in> {PackageRevisionLifecycleDraft, PackageRevisionLifecycleProposed}"
    and "Lifecycle (Spec newObj) \<in> {PackageRevisionLifecycleDraft,
           PackageRevisionLifecycleProposed, PackageRevisionLifecyclePublished}"
    and "isRecloneAndReplay oldObj newObj"
    and "UpdatePackageRevision L cad tr repositoryObj oldPackage oldObj newObj parent = (Inr pr, tr')"
  shows "packageRevisionMeta pr = emptyMeta \<and> metadataCalls (drop (length tr) tr') = []"
proof -
  from UpdatePackageRevision_reclone_calls [OF assms]
  obtain draft ms calls where
    ch: "chainCalls draft (conditionalAddRender ms) calls"
    and tr': "drop (length tr) tr' =
       [OpenRepository repositoryObj, RepoCreatePackageRevision repo newObj]
       @ calls @ [DraftUpdateLifecycle draft (Lifecycle (Spec newObj)), DraftClose draft]"
    and meta: "packageRevisionMeta pr = emptyMeta"
    by blast
  from chainCalls_others [OF ch] have "metadataCalls (drop (length tr) tr') = []"
    by (simp add: tr' metadataCalls_def)
  with meta show ?thesis by simp
qed

theorem UpdatePackageRevision_reclone_no_metadata_witness:
  "UpdatePackageRevision exampleLibrary exampleEngine [] exampleRepository examplePackage
     (draftObj [cloneTask ''base-v1'', patchTask]) (draftObj [cloneTask ''base-v2'', patchTask])
     None =
   (Inr \<lparr>repoPackageRevision = exampleRevision, packageRevisionMeta = emptyMeta\<rparr>,
    exampleRecloneCalls) \<and>
   Labels (draftObj [cloneTask ''base-v2'', patchTask]) = [(''team'', ''core'')] \<and>
   MetaLabels emptyMeta = [] \<and>
   metadataCalls (drop (length ([] :: call list)) exampleRecloneCalls) = []"
proof -
  let ?old = "draftObj [cloneTask ''base-v1'', patchTask]"
  let ?new = "draftObj [cloneTask ''base-v2'', patchTask]"
  have o: "cacheOpenRepository exampleEngine [] exampleRepository = Inr 7"
    by (simp add: exampleEngine_def)
  have lo: "Lifecycle (Spec ?old) \<in>
      {PackageRevisionLifecycleDraft, PackageRevisionLifecycleProposed}"
    by (simp add: draftObj_def)
  have ln: "Lifecycle (Spec ?new) \<in> {PackageRevisionLifecycleDraft,
      PackageRevisionLifecycleProposed, PackageRevisionLifecyclePublished}"
    by (simp add: draftObj_def)
  have r: "isRecloneAndReplay ?old ?new"
    by (simp add: isRecloneAndReplay_def draftObj_def cloneTask_def emptyTask_def Let_def)
  from UpdatePackageRevision_reclone_no_metadata [OF o lo ln r exampleReclone_run]
  have "metadataCalls (drop (length ([] :: call list)) exampleRecloneCalls) = []" by blast
  with exampleReclone_run show ?thesis by (simp add: draftObj_def emptyMeta_def)
qed

subsection \<open>Replacing the resources\<close>

lemma newFilePatches_expected:
  "newFilePatches L old rest patches = Inr patches' \<Longrightarrow>
   \<forall>(k, v) \<in> set rest. map_of new k = Some v \<Longrightarrow>
   map Some patches' =
     map Some patches @
     map (expectedPatch L old new) (filter (\<lambda>k. map_of old k \<noteq> map_of new k) (map fst rest))"
proof (induction rest arbitrary: patches)
  case Nil
  then show ?case by simp
next
  case (Cons e rest)
  obtain k newV where e: "e = (k, newV)" by (cases e)
  from Cons.prems(2) have nk: "map_of new k = Some newV"
    and rest: "\<forall>(k, v) \<in> set rest. map_of new k = Some v"
    by (auto simp: e)
  show ?case
  proof (cases "map_of old k")
    case None
    with Cons.prems(1) have
      "newFilePatches L old rest
         (patches @ [\<lparr>File = k, Contents = newV, PatchType = PatchTypeCreateFile\<rparr>]) =
       Inr patches'" by (simp add: e)
    from Cons.IH [OF this rest] None nk show ?thesis
      by (simp add: e expectedPatch_def)
  next
    case (Some oldV)
    show ?thesis
    proof (cases "newV = oldV")
      case True
      with Some Cons.prems(1) have "newFilePatches L old rest patches = Inr patches'"
        by (simp add: e)
      from Cons.IH [OF this rest] Some nk True show ?thesis
        by (simp add: e)
    next
      case False
      with Some Cons.prems(1) obtain patchSpec where
        g: "GeneratePatch L k oldV newV = Inr patchSpec"
        and r: "newFilePatches L old rest (patches @ [patchSpec]) = Inr patches'"
        by (auto simp: e split: sum.splits)
      from Cons.IH [OF r rest] Some nk False g show ?thesis
        by (auto simp: e expectedPatch_def)
    qed
  qed
qed

lemma deletedFilePatches_expected:
  "\<forall>(k, v) \<in> set rest. map_of old k = Some v \<Longrightarrow>
   map Some (deletedFilePatches new rest patches) =
     map Some patches @
     map (expectedPatch L old new) (filter (\<lambda>k. map_of new k = None) (map fst rest))"
proof (induction rest arbitrary: patches)
  case Nil
  then show ?case by simp
next
  case (Cons e rest)
  obtain k oldV where e: "e = (k, oldV)" by (cases e)
  from Cons.prems have ok: "map_of old k = Some oldV"
    and rest: "\<forall>(k, v) \<in> set rest. map_of old k = Some v"
    by (auto simp: e)
  from Cons.IH [OF rest] ok show ?case
    by (simp add: e expectedPatch_def)
qed

lemma differingFiles_distinct:
  "distinct (map fst old) \<Longrightarrow> distinct (map fst new) \<Longrightarrow> distinct (differingFiles old new)"
  by (auto simp: differingFiles_def map_of_eq_None_iff)

lemma differingFiles_set:
  "set (differingFiles old new) = {k. map_of old k \<noteq> map_of new k}"
proof -
  have "(k \<in> set (differingFiles old new)) = (map_of old k \<noteq> map_of new k)" for k
  proof (cases "map_of new k")
    case None
    then have "k \<notin> fst ` set new" by (simp add: map_of_eq_None_iff)
    moreover have "(k \<in> fst ` set old) = (map_of old k \<noteq> None)"
      by (simp add: map_of_eq_None_iff)
    ultimately show ?thesis using None by (auto simp: differingFiles_def)
  next
    case (Some v)
    then have "k \<in> fst ` set new" by (metis map_of_eq_None_iff option.distinct(1))
    then show ?thesis using Some by (auto simp: differingFiles_def)
  qed
  then show ?thesis by blast
qed

lemma exampleReplace_run:
  "mutationReplaceResources_Apply exampleLibrary \<lparr>SpecResources = exampleNewFiles\<rparr>
     \<lparr>SpecResources = []\<rparr> exampleOldFiles =
   Inr (exampleNewFiles, Some exampleReplaceTask)"
  by (simp add: mutationReplaceResources_Apply_def healConfig_def exampleLibrary_def
      exampleNewFiles_def exampleOldFiles_def exampleReplaceTask_def AList.update_def
      api_constants Let_def)

text \<open>
  \<^bold>\<open>C7\<close> (the diff of a replacement). When \<^verbatim>\<open>mutationReplaceResources.Apply\<close> succeeds on the
  old file set \<open>resources\<close>, its result \<open>applied\<close> is the healed new file set and its audit
  task is a Patch task whose patches are, for the files that differ between the two sets,
  each taken once, the expected patch: CreateFile with the whole contents for a file only in
  the new set, DeleteFile for a file only in the old set, and what \<^verbatim>\<open>GeneratePatch\<close> returns
  for a file in both with different contents. A file with the same contents in both is not
  among the differing files and has no patch. (Both file sets are Go maps: one entry per
  path.)
\<close>

theorem mutationReplaceResources_patches:
  assumes "mutationReplaceResources_Apply L newResources oldResources resources =
             Inr (applied, task)"
    and "distinct (map fst resources)"
    and "distinct (map fst applied)"
  shows "healConfig L resources (SpecResources newResources) = Inr applied \<and>
     (\<exists>patches.
        task = Some (emptyTask\<lparr>Type := TaskTypePatch, Patch := Some \<lparr>Patches = patches\<rparr>\<rparr>) \<and>
        map Some patches =
          map (expectedPatch L resources applied) (differingFiles resources applied)) \<and>
     distinct (differingFiles resources applied) \<and>
     set (differingFiles resources applied) = {k. map_of resources k \<noteq> map_of applied k}"
proof -
  from assms(1) obtain patches where
    heal: "healConfig L resources (SpecResources newResources) = Inr applied"
    and np: "newFilePatches L resources applied [] = Inr patches"
    and task: "task = Some (emptyTask\<lparr>Type := TaskTypePatch,
                 Patch := Some \<lparr>Patches = deletedFilePatches applied resources patches\<rparr>\<rparr>)"
    by (auto simp: mutationReplaceResources_Apply_def Let_def split: sum.splits)
  have n: "\<forall>(k, v) \<in> set applied. map_of applied k = Some v"
    using assms(3) by auto
  have m: "\<forall>(k, v) \<in> set resources. map_of resources k = Some v"
    using assms(2) by auto
  have "map Some (deletedFilePatches applied resources patches) =
      map (expectedPatch L resources applied) (differingFiles resources applied)"
    using newFilePatches_expected [OF np n] deletedFilePatches_expected [OF m, of applied patches L]
    by (simp add: differingFiles_def)
  with heal task differingFiles_distinct [OF assms(2,3)] differingFiles_set show ?thesis
    by blast
qed

theorem mutationReplaceResources_patches_witness:
  "distinct (map fst exampleOldFiles) \<and> distinct (map fst exampleNewFiles) \<and>
   mutationReplaceResources_Apply exampleLibrary \<lparr>SpecResources = exampleNewFiles\<rparr>
     \<lparr>SpecResources = []\<rparr> exampleOldFiles =
   Inr (exampleNewFiles, Some exampleReplaceTask) \<and>
   differingFiles exampleOldFiles exampleNewFiles = [''b.yaml'', ''d.yaml'', ''c.yaml''] \<and>
   map Some
     [\<lparr>File = ''b.yaml'', Contents = ''2=>20'', PatchType = ''PatchFile''\<rparr>,
      \<lparr>File = ''d.yaml'', Contents = ''4'', PatchType = PatchTypeCreateFile\<rparr>,
      \<lparr>File = ''c.yaml'', Contents = [], PatchType = PatchTypeDeleteFile\<rparr>] =
     map (expectedPatch exampleLibrary exampleOldFiles exampleNewFiles)
       (differingFiles exampleOldFiles exampleNewFiles)"
proof -
  have d1: "distinct (map fst exampleOldFiles)" by (simp add: exampleOldFiles_def)
  have d2: "distinct (map fst exampleNewFiles)" by (simp add: exampleNewFiles_def)
  have df: "differingFiles exampleOldFiles exampleNewFiles = [''b.yaml'', ''d.yaml'', ''c.yaml'']"
    by (simp add: differingFiles_def exampleOldFiles_def exampleNewFiles_def)
  from mutationReplaceResources_patches [OF exampleReplace_run d1 d2]
  obtain patches where
    t: "Some exampleReplaceTask =
       Some (emptyTask\<lparr>Type := TaskTypePatch, Patch := Some \<lparr>Patches = patches\<rparr>\<rparr>)"
    and e: "map Some patches =
       map (expectedPatch exampleLibrary exampleOldFiles exampleNewFiles)
         (differingFiles exampleOldFiles exampleNewFiles)" by blast
  from t have "patches =
     [\<lparr>File = ''b.yaml'', Contents = ''2=>20'', PatchType = ''PatchFile''\<rparr>,
      \<lparr>File = ''d.yaml'', Contents = ''4'', PatchType = PatchTypeCreateFile\<rparr>,
      \<lparr>File = ''c.yaml'', Contents = [], PatchType = PatchTypeDeleteFile\<rparr>]"
    by (simp add: exampleReplaceTask_def emptyTask_def)
  with e have "map Some
     [\<lparr>File = ''b.yaml'', Contents = ''2=>20'', PatchType = ''PatchFile''\<rparr>,
      \<lparr>File = ''d.yaml'', Contents = ''4'', PatchType = PatchTypeCreateFile\<rparr>,
      \<lparr>File = ''c.yaml'', Contents = [], PatchType = PatchTypeDeleteFile\<rparr>] =
     map (expectedPatch exampleLibrary exampleOldFiles exampleNewFiles)
       (differingFiles exampleOldFiles exampleNewFiles)" by simp
  with d1 d2 df exampleReplace_run show ?thesis by blast
qed

text \<open>
  \<^bold>\<open>C8\<close> (a failure of \<^verbatim>\<open>healConfig\<close>). The claim does not hold: with a package reader that
  fails, \<^verbatim>\<open>healConfig\<close> fails, and \<^verbatim>\<open>UpdatePackageResources\<close> returns that error, wrapped, to
  its caller after the \<^verbatim>\<open>Apply\<close> of the replacement; the draft is never handed the new
  resources.
\<close>

theorem mutationReplaceResources_heal_failure_counterexample:
  "healConfig brokenReaderLibrary [(''Kptfile'', ''net'')]
     [(''Kptfile'', ''net''), (''cm.yaml'', ''kind: ConfigMap'')] =
     Inl (Errorf ''failed to read old packge resources: %w''
            [E (External ''yaml: line 2: did not find expected key'')]) \<and>
   UpdatePackageResources brokenReaderLibrary exampleEngine [] exampleRepository
     \<lparr>repoPackageRevision = draftRevision, packageRevisionMeta = emptyMeta\<rparr>
     \<lparr>SpecResources = [(''Kptfile'', ''net'')]\<rparr>
     \<lparr>SpecResources = [(''Kptfile'', ''net''), (''cm.yaml'', ''kind: ConfigMap'')]\<rparr> =
   (Inl (Errorf ''failed to heal resources: %w''
           [E (Errorf ''failed to read old packge resources: %w''
                 [E (External ''yaml: line 2: did not find expected key'')])]),
    [OpenRepository exampleRepository,
     RepoUpdatePackageRevision 7 draftRevision,
     MutationApply
       (mutationReplaceResources
          \<lparr>SpecResources = [(''Kptfile'', ''net''), (''cm.yaml'', ''kind: ConfigMap'')]\<rparr>
          \<lparr>SpecResources = [(''Kptfile'', ''net'')]\<rparr>)
       [(''Kptfile'', ''net'')]])"
  by (simp add: UpdatePackageResources_def mutationReplaceResources_Apply_def Apply_def
      healConfig_def brokenReaderLibrary_def exampleLibrary_def exampleEngine_def
      draftRevision_def exampleRevision_def draftObj_def api_constants Let_def)

text \<open>
  \<^bold>\<open>C8\<close>, as the code has it. When \<^verbatim>\<open>healConfig\<close> fails during a ReplaceResources mutation,
  \<^verbatim>\<open>Apply\<close> returns the error, wrapped as \<^verbatim>\<open>failed to heal resources\<close>, and computes no diff;
  the pipeline stops at that mutation with this error and makes no \<^verbatim>\<open>UpdateResources\<close>
  call for it.
\<close>

theorem mutationReplaceResources_heal_failure:
  assumes "healConfig L resources (SpecResources newResources) = Inl err"
  shows "mutationReplaceResources_Apply L newResources oldResources resources =
           Inl (Errorf ''failed to heal resources: %w'' [E err]) \<and>
         applyResourceMutations L cad tr draft resources
             (mutationReplaceResources newResources oldResources # ms) =
           (Some (Errorf ''failed to heal resources: %w'' [E err]),
            tr @ [MutationApply (mutationReplaceResources newResources oldResources) resources])"
  using assms by (simp add: mutationReplaceResources_Apply_def Apply_def Let_def)

theorem mutationReplaceResources_heal_failure_witness:
  "healConfig brokenReaderLibrary exampleOldFiles exampleNewFiles =
     Inl (Errorf ''failed to read old packge resources: %w''
            [E (External ''yaml: line 2: did not find expected key'')]) \<and>
   mutationReplaceResources_Apply brokenReaderLibrary \<lparr>SpecResources = exampleNewFiles\<rparr>
     \<lparr>SpecResources = []\<rparr> exampleOldFiles =
     Inl (Errorf ''failed to heal resources: %w''
            [E (Errorf ''failed to read old packge resources: %w''
                  [E (External ''yaml: line 2: did not find expected key'')])])"
proof -
  have h: "healConfig brokenReaderLibrary exampleOldFiles
             (SpecResources \<lparr>SpecResources = exampleNewFiles\<rparr>) =
     Inl (Errorf ''failed to read old packge resources: %w''
            [E (External ''yaml: line 2: did not find expected key'')])"
    by (simp add: healConfig_def brokenReaderLibrary_def)
  from mutationReplaceResources_heal_failure [OF h, of "\<lparr>SpecResources = []\<rparr>"] h
  show ?thesis by simp
qed

end
